theory Spec2Isabelle
  imports Main "HOL-Library.Sublist" "HOL-Library.Word"
begin

unbundle bit_operations_syntax

text \<open>
  A model of \<open>lab04-advance-rag-agent/strands_agent_tools.py\<close>: the PlantUML encoder, the
  extractor of diagram source from generated text, and the three tools built on them and
  on the remote services, followed by the properties that its specification states.
\<close>

section \<open>Python values\<close>

text \<open>
  A Python \<open>str\<close> is a sequence of Unicode code points, a \<open>bytes\<close> object a sequence of
  octets. String literals of the source are written \<open>py ''...''\<close>.
\<close>

type_synonym codepoint = nat
type_synonym pystr = "codepoint list"
type_synonym byte = "8 word"

definition py :: "string \<Rightarrow> pystr" where
  "py s = map of_char s"

text \<open>
  Exceptions are values. \<open>Exception\<close>, \<open>ValueError\<close> and \<open>IndexError\<close> are the classes the
  module raises or could meet in its own code; \<open>LibraryError\<close> is any other subclass of
  \<open>Exception\<close> raised inside a library or a remote service. Each carries \<open>str(e)\<close>.
\<close>

datatype error =
    Exception pystr
  | ValueError pystr
  | IndexError pystr
  | LibraryError pystr

fun str_of :: "error \<Rightarrow> pystr" where
  "str_of (Exception m) = m"
| "str_of (ValueError m) = m"
| "str_of (IndexError m) = m"
| "str_of (LibraryError m) = m"

text \<open>Sequencing of steps that may raise, and \<open>try: ... except Exception as e: ...\<close>.\<close>

definition seq :: "error + 'a \<Rightarrow> ('a \<Rightarrow> error + 'b) \<Rightarrow> error + 'b" where
  "seq r f = (case r of Inl e \<Rightarrow> Inl e | Inr v \<Rightarrow> f v)"

definition try_except :: "error + 'a \<Rightarrow> (error \<Rightarrow> error + 'a) \<Rightarrow> error + 'a" where
  "try_except r handler = (case r of Inl e \<Rightarrow> handler e | Inr v \<Rightarrow> Inr v)"

subsection \<open>The string methods the module calls\<close>

text \<open>\<open>str.isspace\<close> on one code point: the whitespace that \<open>str.strip()\<close> removes.\<close>

definition isspace :: "codepoint \<Rightarrow> bool" where
  "isspace c \<longleftrightarrow>
     (9 \<le> c \<and> c \<le> 13) \<or> (28 \<le> c \<and> c \<le> 32) \<or> c = 133 \<or> c = 160 \<or> c = 5760 \<or>
     (8192 \<le> c \<and> c \<le> 8202) \<or> c = 8232 \<or> c = 8233 \<or> c = 8239 \<or> c = 8287 \<or> c = 12288"

definition py_lstrip :: "pystr \<Rightarrow> pystr" where
  "py_lstrip s = dropWhile isspace s"

definition py_rstrip :: "pystr \<Rightarrow> pystr" where
  "py_rstrip s = rev (dropWhile isspace (rev s))"

definition py_strip :: "pystr \<Rightarrow> pystr" where
  "py_strip s = py_rstrip (py_lstrip s)"

text \<open>\<open>s.find(sub)\<close>: the lowest index at which \<open>sub\<close> occurs in \<open>s\<close>.\<close>

fun str_find :: "'a list \<Rightarrow> 'a list \<Rightarrow> nat option" where
  "str_find sub [] = (if sub = [] then Some 0 else None)"
| "str_find sub (c # cs) =
     (if prefix sub (c # cs) then Some 0 else map_option Suc (str_find sub cs))"

text \<open>\<open>sub in s\<close>.\<close>

definition py_in :: "'a list \<Rightarrow> 'a list \<Rightarrow> bool" where
  "py_in sub s \<longleftrightarrow> str_find sub s \<noteq> None"

text \<open>
  \<open>s.index(sub, start)\<close> for \<open>start \<ge> 0\<close>. The only exception it raises on strings is
  \<open>ValueError('substring not found')\<close>, which is the value \<open>None\<close> here.
\<close>

definition str_index :: "'a list \<Rightarrow> 'a list \<Rightarrow> nat \<Rightarrow> nat option" where
  "str_index s sub start =
     (if length s < start then None
      else map_option (\<lambda>i. start + i) (str_find sub (drop start s)))"

text \<open>\<open>s[a:b]\<close>: a negative bound counts from the end, and both are clamped to the sequence.\<close>

definition slice_bound :: "nat \<Rightarrow> int \<Rightarrow> nat" where
  "slice_bound n k = (if k < 0 then nat (max 0 (int n + k)) else min (nat k) n)"

definition py_slice :: "'a list \<Rightarrow> int \<Rightarrow> int \<Rightarrow> 'a list" where
  "py_slice s a b = drop (slice_bound (length s) a) (take (slice_bound (length s) b) s)"

text \<open>\<open>s[i]\<close>: a negative index counts from the end; outside the sequence it raises.\<close>

definition getitem :: "'a list \<Rightarrow> int \<Rightarrow> error + 'a" where
  "getitem s i =
     (let k = (if i < 0 then i + int (length s) else i)
      in if k < 0 \<or> int (length s) \<le> k
         then Inl (IndexError (py ''string index out of range''))
         else Inr (s ! nat k))"

text \<open>
  \<open>s.replace(old, new)\<close>: the occurrences of \<open>old\<close> are found from left to right without
  overlap. With an empty \<open>old\<close>, \<open>new\<close> goes before every code point and at the end.
\<close>

function py_replace :: "'a list \<Rightarrow> 'a list \<Rightarrow> 'a list \<Rightarrow> 'a list" where
  "py_replace old new s =
     (if old = [] then new @ concat (map (\<lambda>c. c # new) s)
      else if s = [] then []
      else if prefix old s then new @ py_replace old new (drop (length old) s)
      else hd s # py_replace old new (tl s))"
  by pat_completeness auto
termination
  by (relation "measure (\<lambda>(old, new, s). length s)") auto

declare py_replace.simps [simp del]

text \<open>\<open>str(n)\<close> of an integer, as an f-string renders it.\<close>

fun digits :: "nat \<Rightarrow> pystr" where
  "digits n = (if n < 10 then [48 + n] else digits (n div 10) @ [48 + n mod 10])"

declare digits.simps [simp del]

definition str_int :: "int \<Rightarrow> pystr" where
  "str_int i = (if i < 0 then py ''-'' @ digits (nat (- i)) else digits (nat i))"

section \<open>The collaborators\<close>

text \<open>
  JSON values, as \<open>json.dumps\<close> receives them and as the services return them. A string
  returned by \<open>json.dumps(v)\<close> is represented by the value \<open>v\<close> it encodes. Floating-point
  numbers are only passed through.
\<close>

typedecl pyfloat

datatype json =
    JNull
  | JString pystr
  | JInt int
  | JFloat pyfloat
  | JArray "json list"
  | JObject "(pystr \<times> json) list"

text \<open>One entry of the \<open>retrievalResults\<close> of the knowledge base, by the keys it has.\<close>

record retrieval_result =
  rr_content :: "(pystr \<rightharpoonup> pystr) option"
  rr_score :: "json option"
  rr_metadata :: "json option"

text \<open>
  What the module reaches through \<open>boto3\<close>, \<open>urllib3\<close>, \<open>zlib\<close>, \<open>uuid\<close> and
  \<open>str.encode\<close>. A call that raises returns \<open>Inl\<close>.
  \<^item> \<open>str_encode_utf8\<close>: \<open>text.encode('utf-8')\<close>;
  \<^item> \<open>zlib_compress\<close>: \<open>zlib.compress(data)\<close>;
  \<^item> \<open>http_request_get\<close>: \<open>http.request('GET', url)\<close>, giving \<open>(response.status, response.data)\<close>;
  \<^item> \<open>region_name\<close>: \<open>boto3.Session().region_name\<close>, which may be \<open>None\<close>;
  \<^item> \<open>sts_account\<close>: \<open>boto3.client('sts').get_caller_identity()['Account']\<close>;
  \<^item> \<open>s3_head_bucket\<close>, \<open>s3_create_bucket\<close> (bucket, then the \<open>LocationConstraint\<close> of the
    configuration if it has one), \<open>s3_put_object\<close> (bucket, key, body, content type);
  \<^item> \<open>uuid4\<close>: \<open>str(uuid.uuid4())\<close> of this invocation;
  \<^item> \<open>invoke_model\<close>: \<open>bedrock_runtime.invoke_model(modelId, body)\<close> followed by
    \<open>json.loads(response.get("body").read())["content"][0]["text"]\<close>;
  \<^item> \<open>retrieve\<close>: \<open>bedrock_agent_runtime.retrieve\<close> (knowledge base, query, number of
    results), giving the value under \<open>'retrievalResults'\<close> if the response has that key.
\<close>

record services =
  str_encode_utf8 :: "pystr \<Rightarrow> error + byte list"
  zlib_compress :: "byte list \<Rightarrow> byte list"
  http_request_get :: "pystr \<Rightarrow> error + (int \<times> byte list)"
  region_name :: "pystr option"
  sts_account :: "error + pystr"
  s3_head_bucket :: "pystr \<Rightarrow> error + unit"
  s3_create_bucket :: "pystr \<Rightarrow> pystr option option \<Rightarrow> error + unit"
  s3_put_object :: "pystr \<Rightarrow> pystr \<Rightarrow> byte list \<Rightarrow> pystr \<Rightarrow> error + unit"
  uuid4 :: pystr
  invoke_model :: "pystr \<Rightarrow> json \<Rightarrow> error + pystr"
  retrieve :: "pystr \<Rightarrow> pystr \<Rightarrow> int \<Rightarrow> error + retrieval_result list option"

definition PLANTUML_SERVER :: pystr where
  "PLANTUML_SERVER = py ''http://www.plantuml.com/plantuml''"

section \<open>The module\<close>

subsection \<open>\<open>get_default_bucket\<close>\<close>

text \<open>
  The bare \<open>except:\<close> around \<open>head_bucket\<close> turns any failure of it into a call of
  \<open>create_bucket\<close>; what that call raises, like every other fault, is wrapped into a new
  \<open>Exception\<close>. The f-string renders a missing region as \<open>None\<close>.
\<close>

definition get_default_bucket :: "services \<Rightarrow> error + pystr" where
  "get_default_bucket env =
     try_except
       (let region = region_name env in
        seq (sts_account env) (\<lambda>account.
          let bucket_name =
                py ''sagemaker-'' @ (case region of None \<Rightarrow> py ''None'' | Some r \<Rightarrow> r)
                  @ py ''-'' @ account
          in seq (case s3_head_bucket env bucket_name of
                    Inr u \<Rightarrow> Inr u
                  | Inl e \<Rightarrow>
                      s3_create_bucket env bucket_name
                        (if region \<noteq> Some (py ''us-east-1'') then Some region else None))
               (\<lambda>u. Inr bucket_name)))
       (\<lambda>e. Inl (Exception (py ''Error getting default bucket: '' @ str_of e)))"

subsection \<open>\<open>encode_plantuml\<close>\<close>

definition base64_chars :: pystr where
  "base64_chars = py ''0123456789ABCDEFGHIJKLMNOPQRSTUVWXYZabcdefghijklmnopqrstuvwxyz-_''"

text \<open>
  The body of the loop, from the chunk \<open>compressed[i:i + 3]\<close> and the token so far to the
  token after it. \<open>b\<close> has three elements whenever the chunk has at most three, so
  \<open>b[0]\<close>, \<open>b[1]\<close> and \<open>b[2]\<close> exist; the alphabet is indexed as Python does it.
\<close>

definition encode_body :: "byte list \<Rightarrow> pystr \<Rightarrow> error + pystr" where
  "encode_body chunk encoded =
     (let b = map uint chunk @ replicate (3 - length chunk) (0 :: int);
          b1 = drop_bit 2 (b ! 0);
          b2 = push_bit 4 ((b ! 0) AND 3) OR drop_bit 4 (b ! 1);
          b3 = push_bit 2 ((b ! 1) AND 15) OR drop_bit 6 (b ! 2);
          b4 = (b ! 2) AND 63
      in seq (getitem base64_chars b1) (\<lambda>c1.
         seq (getitem base64_chars b2) (\<lambda>c2.
         seq (if 1 < length chunk
              then seq (getitem base64_chars b3) (\<lambda>c3. Inr ((encoded @ [c1, c2]) @ [c3]))
              else Inr (encoded @ [c1, c2])) (\<lambda>encoded.
         if 2 < length chunk
         then seq (getitem base64_chars b4) (\<lambda>c4. Inr (encoded @ [c4]))
         else Inr encoded))))"

text \<open>\<open>for i in range(0, len(compressed), 3)\<close>, from the index \<open>i\<close> on.\<close>

function encode_loop :: "byte list \<Rightarrow> nat \<Rightarrow> pystr \<Rightarrow> error + pystr" where
  "encode_loop compressed i encoded =
     (if i < length compressed
      then seq (encode_body (py_slice compressed (int i) (int i + 3)) encoded)
             (\<lambda>encoded. encode_loop compressed (i + 3) encoded)
      else Inr encoded)"
  by pat_completeness auto
termination
  by (relation "measure (\<lambda>(compressed, i, encoded). length compressed - i)") auto

declare encode_loop.simps [simp del]

definition encode_plantuml :: "services \<Rightarrow> pystr \<Rightarrow> error + pystr" where
  "encode_plantuml env plantuml_text =
     (let plantuml_text =
            py_strip (py_replace (py ''@enduml'') (py '''')
              (py_replace (py ''@startuml'') (py '''') plantuml_text));
          plantuml_text = py ''@startuml\<newline>'' @ plantuml_text @ py ''\<newline>@enduml''
      in seq (str_encode_utf8 env plantuml_text) (\<lambda>data.
           let compressed = py_slice (zlib_compress env data) 2 (- 4)
           in encode_loop compressed 0 (py '''')))"

subsection \<open>\<open>get_diagram_from_server\<close> and \<open>upload_to_s3\<close>\<close>

definition get_diagram_from_server :: "services \<Rightarrow> pystr \<Rightarrow> pystr \<Rightarrow> error + byte list" where
  "get_diagram_from_server env plantuml_code output_format =
     try_except
       (seq (encode_plantuml env plantuml_code) (\<lambda>encoded.
          let url = PLANTUML_SERVER @ py ''/'' @ output_format @ py ''/'' @ encoded
          in seq (http_request_get env url) (\<lambda>(status, data).
               if status = 200 then Inr data
               else Inl (Exception (py ''Failed to get diagram: HTTP '' @ str_int status)))))
       (\<lambda>e. Inl (Exception (py ''Error getting diagram from server: '' @ str_of e)))"

definition upload_to_s3 :: "services \<Rightarrow> byte list \<Rightarrow> pystr \<Rightarrow> error + pystr" where
  "upload_to_s3 env diagram_data key =
     try_except
       (seq (get_default_bucket env) (\<lambda>bucket_name.
          seq (s3_put_object env bucket_name key diagram_data (py ''image/png'')) (\<lambda>u.
            let s3_uri = py ''s3://'' @ bucket_name @ py ''/'' @ key in Inr s3_uri)))
       (\<lambda>e. Inl (Exception (py ''Error uploading to S3: '' @ str_of e)))"

subsection \<open>\<open>extract_plantuml_code\<close>\<close>

definition start_markers :: "pystr list" where
  "start_markers = [py ''```plantuml'', py ''@startuml'']"

definition end_markers :: "pystr list" where
  "end_markers = [py ''```'', py ''@enduml'']"

text \<open>The two \<open>if\<close> statements that make sure the code carries both tags.\<close>

definition ensure_tags :: "pystr \<Rightarrow> pystr" where
  "ensure_tags code =
     (let code = (if \<not> prefix (py ''@startuml'') code then py ''@startuml\<newline>'' @ code
                  else code)
      in if \<not> suffix (py ''@enduml'') code then code @ py ''\<newline>@enduml'' else code)"

text \<open>
  The inner loop over the end markers: \<open>Some code\<close> when it returns, \<open>None\<close> when every
  \<open>index\<close> raised \<open>ValueError\<close> and the loop ran out.
\<close>

fun try_end_markers :: "pystr \<Rightarrow> nat \<Rightarrow> pystr list \<Rightarrow> pystr option" where
  "try_end_markers response_text start_idx [] = None"
| "try_end_markers response_text start_idx (end_marker # markers) =
     (case str_index response_text end_marker start_idx of
        Some end_idx \<Rightarrow>
          Some (ensure_tags (py_strip (py_slice response_text (int start_idx) (int end_idx))))
      | None \<Rightarrow> try_end_markers response_text start_idx markers)"

text \<open>
  The outer loop over the start markers: \<open>Inr (Some code)\<close> when it returns, \<open>Inr None\<close> when
  it ran out, \<open>Inl\<close> when \<open>response_text.index(start_marker)\<close> raised.
\<close>

fun try_start_markers :: "pystr \<Rightarrow> pystr list \<Rightarrow> error + pystr option" where
  "try_start_markers response_text [] = Inr None"
| "try_start_markers response_text (start_marker # markers) =
     (if py_in start_marker response_text
      then (case str_index response_text start_marker 0 of
              None \<Rightarrow> Inl (ValueError (py ''substring not found''))
            | Some idx \<Rightarrow>
                (let start_idx = (if start_marker = py ''```plantuml''
                                  then idx + length start_marker else idx)
                 in case try_end_markers response_text start_idx end_markers of
                      Some code \<Rightarrow> Inr (Some code)
                    | None \<Rightarrow> try_start_markers response_text markers))
      else try_start_markers response_text markers)"

definition extract_plantuml_code :: "pystr \<Rightarrow> error + pystr" where
  "extract_plantuml_code response_text =
     try_except
       (seq (try_start_markers response_text start_markers) (\<lambda>found.
          case found of
            Some code \<Rightarrow> Inr code
          | None \<Rightarrow> Inl (ValueError (py ''No valid PlantUML code markers found''))))
       (\<lambda>e. Inl (ValueError (py ''Could not extract PlantUML code: '' @ str_of e)))"

subsection \<open>The prompts\<close>

definition UML_GENERATION_PROMPT :: pystr where
  "UML_GENERATION_PROMPT = py (concat [
     ''\<newline>'',
     ''Your task is to generate a UML Sequential diagram in PlantUML format based on the given OpenAPI YAML file. The YAML file will be provided in the following format:\<newline>'',
     ''\<newline>'',
     ''<YAML_FILE>\<newline>'',
     ''{YAML_FILE}\<newline>'',
     ''</YAML_FILE>\<newline>'',
     ''\<newline>'',
     ''Important Instructions:\<newline>'',
     ''1. Analyze the YAML file carefully to understand the API endpoints, methods, and their interactions\<newline>'',
     ''2. Create a sequence diagram that shows:\<newline>'',
     ''   - Client interactions with the API endpoints\<newline>'',
     ''   - Request/response flows\<newline>'',
     ''   - Different HTTP methods used\<newline>'',
     ''   - Success and error scenarios\<newline>'',
     ''3. Your response MUST contain the PlantUML code wrapped in plantuml code blocks like this:\<newline>'',
     ''```plantuml\<newline>'',
     ''@startuml\<newline>'',
     ''... your sequence diagram code here ...\<newline>'',
     ''@enduml\<newline>'',
     ''```\<newline>'',
     ''\<newline>'',
     ''4. Make sure to:\<newline>'',
     ''   - Include all API endpoints from the YAML\<newline>'',
     ''   - Show proper sequence flows\<newline>'',
     ''   - Include HTTP methods (GET, POST, etc.)\<newline>'',
     ''   - Show request/response data where relevant\<newline>'',
     ''   - Use proper PlantUML sequence diagram syntax\<newline>'',
     ''\<newline>'',
     ''Generate ONLY the PlantUML code without any additional explanation or text.\<newline>''])"

definition CODE_GENERATION_PROMPT :: pystr where
  "CODE_GENERATION_PROMPT = py (concat [
     ''\<newline>'',
     ''Your task is to generate a code snippet based on a given OpenAPI YAML file and a user query. The\<newline>'',
     ''YAML file will be provided in the following format:\<newline>'',
     ''\<newline>'',
     ''<YAML_FILE>\<newline>'',
     ''{YAML_FILE}\<newline>'',
     ''</YAML_FILE>\<newline>'',
     ''\<newline>'',
     ''The user query will be provided like this:\<newline>'',
     ''\<newline>'',
     ''<USER_QUERY>\<newline>'',
     ''{USER_QUERY}\<newline>'',
     ''</USER_QUERY>\<newline>'',
     ''\<newline>'',
     ''To complete this task, follow these steps:\<newline>'',
     ''\<newline>'',
     ''1. Carefully read and understand the user query. Identify the specific API endpoint, HTTP method,\<newline>'',
     ''and any required parameters or request body mentioned in the query.\<newline>'',
     ''\<newline>'',
     ''2. Analyze the provided YAML file and locate the relevant section that corresponds to the user's\<newline>'',
     ''query. The YAML file follows the OpenAPI specification and contains information about the API's\<newline>'',
     ''endpoints, methods, parameters, request/response bodies, etc.\<newline>'',
     ''\<newline>'',
     ''3. Once you have identified the relevant section in the YAML file, extract the necessary information\<newline>'',
     ''to construct the code snippet, such as the endpoint URL, HTTP method, required parameters, and\<newline>'',
     ''request body structure (if applicable).\<newline>'',
     ''\<newline>'',
     ''4. Use the extracted information to generate the code snippet in the programming language specified\<newline>'',
     ''by the user (e.g., Python, JavaScript, etc.). The code snippet should include the necessary\<newline>'',
     ''imports/libraries, the API endpoint URL, the HTTP method, any required parameters, and the request\<newline>'',
     ''body (if applicable).\<newline>'',
     ''\<newline>'',
     ''5. Format the generated code snippet using markdown code blocks, like this:\<newline>'',
     ''\<newline>'',
     ''```<programming_language>\<newline>'',
     ''<code_snippet>\<newline>'',
     ''```\<newline>'',
     ''\<newline>'',
     ''This will allow the user to easily copy and paste the code snippet.\<newline>'',
     ''\<newline>'',
     ''6. If the user's query cannot be fulfilled based on the provided YAML file, or if there is any\<newline>'',
     ''ambiguity or missing information, explain the issue politely and ask for clarification from the\<newline>'',
     ''user.\<newline>'',
     ''\<newline>'',
     ''Remember, your goal is to generate a code snippet that accurately reflects the user's query based on\<newline>'',
     ''the information provided in the OpenAPI YAML file. Do not include any additional functionality or\<newline>'',
     ''code beyond what is necessary to fulfill the user's request.\<newline>''])"

subsection \<open>The tools\<close>

text \<open>
  A tool returns \<open>Inr\<close> of the JSON value it dumps, and would return \<open>Inl\<close> if an
  exception left it. The \<open>@tool\<close> decorator registers a function with the agent framework
  and does not change what it computes.
\<close>

text \<open>The request that both generating tools send to the model, for a prompt.\<close>

definition model_id :: pystr where
  "model_id = py ''anthropic.claude-3-sonnet-20240229-v1:0''"

definition request_body :: "pystr \<Rightarrow> json" where
  "request_body prompt =
     (let query_obj = JObject [(py ''type'', JString (py ''text'')), (py ''text'', JString prompt)];
          content = [] @ [query_obj]
      in JObject
           [(py ''anthropic_version'', JString (py ''bedrock-2023-05-31'')),
            (py ''max_tokens'', JInt 4096),
            (py ''messages'',
               JArray [JObject [(py ''role'', JString (py ''user'')),
                                (py ''content'', JArray content)]])])"

definition get_uml_diagram :: "services \<Rightarrow> pystr \<Rightarrow> pystr \<Rightarrow> error + json" where
  "get_uml_diagram env yml_body output_format =
     try_except
       (let prompt = py_replace (py ''{YAML_FILE}'') yml_body UML_GENERATION_PROMPT;
            body = request_body prompt
        in seq (invoke_model env model_id body) (\<lambda>plantuml_text.
           seq (extract_plantuml_code plantuml_text) (\<lambda>plantuml_code.
           seq (get_diagram_from_server env plantuml_code output_format) (\<lambda>diagram_data.
             let file_name = py ''diagrams/'' @ uuid4 env @ py ''.'' @ output_format
             in seq (upload_to_s3 env diagram_data file_name) (\<lambda>diagram_s3_uri.
                  let result = JObject
                        [(py ''codeBody'', JString plantuml_code),
                         (py ''diagramUri'', JString diagram_s3_uri),
                         (py ''summary'',
                            JString (py ''UML diagram generated successfully and saved to ''
                                       @ diagram_s3_uri))]
                  in Inr result)))))
       (\<lambda>e. let error_result = JObject
                    [(py ''error'', JString (str_of e)),
                     (py ''codeBody'', JNull),
                     (py ''diagramUri'', JNull)]
             in Inr error_result)"

definition get_unit_test_code :: "services \<Rightarrow> pystr \<Rightarrow> pystr \<Rightarrow> error + json" where
  "get_unit_test_code env yml_body user_query =
     try_except
       (let prompt = py_replace (py ''{YAML_FILE}'') yml_body CODE_GENERATION_PROMPT;
            prompt = py_replace (py ''{USER_QUERY}'') user_query prompt;
            body = request_body prompt
        in seq (invoke_model env model_id body) (\<lambda>code_body.
             let result = JObject [(py ''codeBody'', JString code_body)] in Inr result))
       (\<lambda>e. let error_result = JObject [(py ''error'', JString (str_of e)),
                                          (py ''codeBody'', JNull)]
             in Inr error_result)"

text \<open>One pass of the loop over the retrieval results: the entry appended to \<open>results\<close>.\<close>

definition result_entry :: "retrieval_result \<Rightarrow> json" where
  "result_entry r =
     JObject
       [(py ''content'',
           JString (case (case rr_content r of None \<Rightarrow> Map.empty | Some d \<Rightarrow> d) (py ''text'') of
                      None \<Rightarrow> py '''' | Some t \<Rightarrow> t)),
        (py ''score'', (case rr_score r of None \<Rightarrow> JInt 0 | Some v \<Rightarrow> v)),
        (py ''metadata'', (case rr_metadata r of None \<Rightarrow> JObject [] | Some v \<Rightarrow> v))]"

definition search_knowledge_base :: "services \<Rightarrow> pystr \<Rightarrow> pystr \<Rightarrow> int \<Rightarrow> error + json" where
  "search_knowledge_base env query kb_id max_results =
     try_except
       (seq (retrieve env kb_id query max_results) (\<lambda>response.
          let results = map result_entry (case response of None \<Rightarrow> [] | Some rs \<Rightarrow> rs)
          in Inr (JObject
                    [(py ''query'', JString query),
                     (py ''results'', JArray results),
                     (py ''count'', JInt (int (length results)))])))
       (\<lambda>e. Inr (JObject [(py ''error'', JString (str_of e)), (py ''results'', JArray [])]))"


section \<open>The specification's wording\<close>

text \<open>
  The definitions of this section follow the sentences of the specification, not the
  source. The theorems below compare them with the module.
\<close>

text \<open>
  Deleting every occurrence of a literal: up to its first occurrence the text is kept,
  the occurrence is left out, and the rest is treated the same way.
\<close>

function delete_occurrences :: "'a list \<Rightarrow> 'a list \<Rightarrow> 'a list" where
  "delete_occurrences lit s =
     (case str_find lit s of
        None \<Rightarrow> s
      | Some i \<Rightarrow>
          if lit = [] \<or> length s < i + length lit then s
          else take i s @ delete_occurrences lit (drop (i + length lit) s))"
  by pat_completeness auto
termination
  by (relation "measure (\<lambda>(lit, s). length s)") (auto simp: neq_Nil_conv)

declare delete_occurrences.simps [simp del]

text \<open>Steps (1) and (2): the normalised, re-wrapped diagram source.\<close>

definition spec_rewrap :: "pystr \<Rightarrow> pystr" where
  "spec_rewrap s =
     py ''@startuml\<newline>''
       @ py_strip (delete_occurrences (py ''@enduml'') (delete_occurrences (py ''@startuml'') s))
       @ py ''\<newline>@enduml''"

text \<open>Step (4): without the first 2 and the last 4 bytes.\<close>

definition spec_drop_framing :: "byte list \<Rightarrow> byte list" where
  "spec_drop_framing bs = rev (drop 4 (rev (drop 2 bs)))"

text \<open>
  Step (5): the four 6-bit values of a group of three bytes, with bit 0 the least
  significant bit of a byte, and the symbols they select.
\<close>

definition sextet1 :: "byte \<Rightarrow> nat" where
  "sextet1 byte0 = unat byte0 div 4"

definition sextet2 :: "byte \<Rightarrow> byte \<Rightarrow> nat" where
  "sextet2 byte0 byte1 = (unat byte0 mod 4) * 16 + unat byte1 div 16"

definition sextet3 :: "byte \<Rightarrow> byte \<Rightarrow> nat" where
  "sextet3 byte1 byte2 = (unat byte1 mod 16) * 4 + unat byte2 div 64"

definition sextet4 :: "byte \<Rightarrow> nat" where
  "sextet4 byte2 = unat byte2 mod 64"

definition symbol :: "nat \<Rightarrow> codepoint" where
  "symbol n = py ''0123456789ABCDEFGHIJKLMNOPQRSTUVWXYZabcdefghijklmnopqrstuvwxyz-_'' ! n"

fun spec_pack :: "byte list \<Rightarrow> pystr" where
  "spec_pack (byte0 # byte1 # byte2 # rest) =
     [symbol (sextet1 byte0), symbol (sextet2 byte0 byte1),
      symbol (sextet3 byte1 byte2), symbol (sextet4 byte2)] @ spec_pack rest"
| "spec_pack [byte0, byte1] =
     [symbol (sextet1 byte0), symbol (sextet2 byte0 byte1), symbol (sextet3 byte1 0)]"
| "spec_pack [byte0] = [symbol (sextet1 byte0), symbol (sextet2 byte0 0)]"
| "spec_pack [] = []"

definition spec_encode :: "services \<Rightarrow> pystr \<Rightarrow> error + pystr" where
  "spec_encode env s =
     (case str_encode_utf8 env (spec_rewrap s) of
        Inl e \<Rightarrow> Inl e
      | Inr data \<Rightarrow> Inr (spec_pack (spec_drop_framing (zlib_compress env data))))"

text \<open>The length of a token for \<open>n\<close> raw deflate bytes.\<close>

definition spec_token_length :: "nat \<Rightarrow> nat" where
  "spec_token_length n =
     4 * (n div 3) + (if n mod 3 = 0 then 0 else if n mod 3 = 1 then 2 else 3)"

text \<open>The 64 symbols: digits, upper case, lower case, \<open>-\<close> and \<open>_\<close>.\<close>

definition in_alphabet :: "codepoint \<Rightarrow> bool" where
  "in_alphabet c \<longleftrightarrow>
     (of_char CHR ''0'' \<le> c \<and> c \<le> of_char CHR ''9'') \<or>
     (of_char CHR ''A'' \<le> c \<and> c \<le> of_char CHR ''Z'') \<or>
     (of_char CHR ''a'' \<le> c \<and> c \<le> of_char CHR ''z'') \<or>
     c = of_char CHR ''-'' \<or> c = of_char CHR ''_''"

text \<open>
  The payload with the begin marker prepended on its own line unless it starts with it,
  and the end marker appended on its own line unless it ends with it.
\<close>

definition spec_with_markers :: "pystr \<Rightarrow> pystr" where
  "spec_with_markers payload =
     (if prefix (py ''@startuml'') payload then [] else py ''@startuml\<newline>'')
       @ payload
       @ (if suffix (py ''@enduml'') payload then [] else py ''\<newline>@enduml'')"

text \<open>
  The position from which the end markers are searched, for a start marker that occurs
  in the text: past the fenced opener, at the bare begin marker.
\<close>

definition advanced_start :: "pystr \<Rightarrow> pystr \<Rightarrow> nat" where
  "advanced_start text marker =
     (case str_find marker text of
        None \<Rightarrow> 0
      | Some idx \<Rightarrow> if marker = py ''```plantuml'' then idx + length marker else idx)"

text \<open>No end marker occurs at or after a position.\<close>

definition no_end_marker_from :: "pystr \<Rightarrow> nat \<Rightarrow> bool" where
  "no_end_marker_from text pos \<longleftrightarrow> list_all (\<lambda>e. str_index text e pos = None) end_markers"

text \<open>
  The failure condition with one selected start marker, the first of the list that the
  text contains: there is none, or no end marker follows it.
\<close>

definition selected_marker_unmatched :: "pystr \<Rightarrow> bool" where
  "selected_marker_unmatched text =
     (case find (\<lambda>m. py_in m text) start_markers of
        None \<Rightarrow> True
      | Some m \<Rightarrow> no_end_marker_from text (advanced_start text m))"

text \<open>The failure condition over every start marker that the text contains.\<close>

definition every_marker_unmatched :: "pystr \<Rightarrow> bool" where
  "every_marker_unmatched text \<longleftrightarrow>
     list_all (\<lambda>m. \<not> py_in m text \<or> no_end_marker_from text (advanced_start text m))
       start_markers"

definition extraction_error :: error where
  "extraction_error =
     ValueError (py ''Could not extract PlantUML code: No valid PlantUML code markers found'')"

text \<open>
  A start marker is matched when it occurs in the text and an end marker occurs at or
  after its start position.
\<close>

definition marker_matched :: "pystr \<Rightarrow> pystr \<Rightarrow> bool" where
  "marker_matched text marker \<longleftrightarrow>
     py_in marker text \<and> \<not> no_end_marker_from text (advanced_start text marker)"

text \<open>
  The extraction over the first start marker of the list that is matched: from its start
  position the first end marker of the list that is found closes the payload, which is
  trimmed and given its markers. Without a matched start marker the extraction fails.
\<close>

definition spec_extract :: "pystr \<Rightarrow> error + pystr" where
  "spec_extract text =
     (case find (marker_matched text) start_markers of
        None \<Rightarrow> Inl extraction_error
      | Some start_marker \<Rightarrow>
          (let start_idx = advanced_start text start_marker in
           case find (\<lambda>e. str_index text e start_idx \<noteq> None) end_markers of
             None \<Rightarrow> Inl extraction_error
           | Some end_marker \<Rightarrow>
               (case str_index text end_marker start_idx of
                  None \<Rightarrow> Inl extraction_error
                | Some end_idx \<Rightarrow>
                    Inr (spec_with_markers
                           (py_strip (py_slice text (int start_idx) (int end_idx)))))))"

text \<open>The field names of a JSON object.\<close>

fun field_names :: "json \<Rightarrow> pystr list" where
  "field_names (JObject kvs) = map fst kvs"
| "field_names v = []"

text \<open>The error result of \<open>get_uml_diagram\<close> for a message: both payload fields null.\<close>

definition uml_error_result :: "pystr \<Rightarrow> json" where
  "uml_error_result message =
     JObject [(py ''error'', JString message), (py ''codeBody'', JNull), (py ''diagramUri'', JNull)]"

text \<open>The field names of what a tool returns.\<close>

definition result_fields :: "error + json \<Rightarrow> pystr list" where
  "result_fields r = (case r of Inl e \<Rightarrow> [] | Inr v \<Rightarrow> field_names v)"


section \<open>Example collaborators\<close>

text \<open>
  Concrete services on which the theorems are run: UTF-8 of ASCII text, a stand-in for
  the compressor that puts a 2-byte header and a 4-byte trailer around the unchanged
  data, a rendering server that answers with a given status, a model that answers with a
  given text, and a storage and a knowledge base that either work or raise.
\<close>

definition demo_services :: "pystr \<Rightarrow> int \<Rightarrow> bool \<Rightarrow> services" where
  "demo_services answer status storage_ok =
     \<lparr> str_encode_utf8 = (\<lambda>s. if list_all (\<lambda>c. c < 128) s then Inr (map of_nat s)
                               else Inl (LibraryError (py ''not ASCII''))),
       zlib_compress = (\<lambda>data. [120, 156] @ data @ [0, 0, 0, 0]),
       http_request_get = (\<lambda>url. Inr (status, [137, 80, 78, 71])),
       region_name = Some (py ''us-east-1''),
       sts_account = Inr (py ''123456789012''),
       s3_head_bucket = (\<lambda>bucket. Inr ()),
       s3_create_bucket = (\<lambda>bucket config. Inr ()),
       s3_put_object = (\<lambda>bucket key body content_type.
                          if storage_ok then Inr () else Inl (LibraryError (py ''AccessDenied''))),
       uuid4 = py ''0f8fad5b-d9cb-469f-a165-70867728950e'',
       invoke_model = (\<lambda>model body. Inr answer),
       retrieve = (\<lambda>kb_id query n.
                     if storage_ok
                     then Inr (Some [\<lparr> rr_content = Some [py ''text'' \<mapsto> py ''openapi: 3.0.0''],
                                       rr_score = None, rr_metadata = None \<rparr>])
                     else Inl (LibraryError (py ''ThrottlingException''))) \<rparr>"

definition demo_diagram :: pystr where
  "demo_diagram = py ''@startuml\<newline>A->B: hi\<newline>@enduml''"


section \<open>The packing loop\<close>

lemma length_base64_chars: "length base64_chars = 64"
  by (simp add: base64_chars_def py_def)

lemma getitem_base64_chars:
  "0 \<le> k \<Longrightarrow> k < 64 \<Longrightarrow> getitem base64_chars k = Inr (symbol (nat k))"
  using length_base64_chars by (simp add: getitem_def symbol_def base64_chars_def)

lemma or_push_bit_add:
  fixes a d :: int
  assumes "0 \<le> d" "d < 2 ^ n"
  shows "push_bit n a OR d = a * 2 ^ n + d"
proof -
  have "take_bit n d = d" using assms by (simp add: take_bit_int_eq_self)
  then have "push_bit n a OR d = concat_bit n d a"
    by (simp add: concat_bit_def or.commute)
  also have "\<dots> = take_bit n d + push_bit n a" by (rule concat_bit_eq)
  finally show ?thesis using \<open>take_bit n d = d\<close> by (simp add: push_bit_eq_mult)
qed

lemma and_low_bits:
  fixes a :: int
  shows "a AND 3 = a mod 4" "a AND 15 = a mod 16" "a AND 63 = a mod 64"
proof -
  have "a AND mask 2 = a mod 2 ^ 2" "a AND mask 4 = a mod 2 ^ 4" "a AND mask 6 = a mod 2 ^ 6"
    by (simp_all only: take_bit_eq_mask [symmetric] take_bit_eq_mod)
  then show "a AND 3 = a mod 4" "a AND 15 = a mod 16" "a AND 63 = a mod 64"
    by (simp_all add: mask_eq_exp_minus_1)
qed

lemma uint_byte_bounds: "0 \<le> uint (x::byte)" "uint (x::byte) < 256"
  using uint_bounded [of x] by simp_all

lemma b1_eq: "drop_bit 2 (uint (x::byte)) = int (sextet1 x)"
  by (simp add: sextet1_def drop_bit_eq_div zdiv_int)

lemma b4_eq: "(uint (x::byte)) AND 63 = int (sextet4 x)"
  by (simp add: sextet4_def and_low_bits zmod_int)

lemma b2_eq: "push_bit 4 (uint (x::byte) AND 3) OR drop_bit 4 (uint (y::byte)) = int (sextet2 x y)"
proof -
  have "0 \<le> drop_bit 4 (uint y)" "drop_bit 4 (uint y) < 2 ^ 4"
    using uint_byte_bounds [of y] by (simp_all add: drop_bit_eq_div pos_imp_zdiv_nonneg_iff)
  then have "push_bit 4 (uint x AND 3) OR drop_bit 4 (uint y)
      = (uint x AND 3) * 2 ^ 4 + drop_bit 4 (uint y)"
    by (rule or_push_bit_add)
  then show ?thesis
    by (simp add: sextet2_def and_low_bits drop_bit_eq_div zmod_int zdiv_int)
qed

lemma b3_eq: "push_bit 2 (uint (x::byte) AND 15) OR drop_bit 6 (uint (y::byte)) = int (sextet3 x y)"
proof -
  have "0 \<le> drop_bit 6 (uint y)" "drop_bit 6 (uint y) < 2 ^ 2"
    using uint_byte_bounds [of y] by (simp_all add: drop_bit_eq_div pos_imp_zdiv_nonneg_iff)
  then have "push_bit 2 (uint x AND 15) OR drop_bit 6 (uint y)
      = (uint x AND 15) * 2 ^ 2 + drop_bit 6 (uint y)"
    by (rule or_push_bit_add)
  then show ?thesis
    by (simp add: sextet3_def and_low_bits drop_bit_eq_div zmod_int zdiv_int)
qed

lemma sextet_bounds:
  "sextet1 x < 64 \<and> sextet2 x y < 64 \<and> sextet3 x y < 64 \<and> sextet4 x < 64"
proof -
  have "unat x < 256" "unat y < 256"
    using unsigned_less [of x, where ?'a = nat] unsigned_less [of y, where ?'a = nat] by simp_all
  then show ?thesis
    unfolding sextet1_def sextet2_def sextet3_def sextet4_def by arith
qed

lemma sextet_zero: "sextet2 x 0 = (unat x mod 4) * 16" "sextet3 x 0 = (unat x mod 16) * 4"
  by (simp_all add: sextet2_def sextet3_def)

lemma encode_body_3:
  "encode_body [x, y, z] encoded = Inr (encoded @ spec_pack [x, y, z])"
proof -
  have b: "map uint [x, y, z] @ replicate (3 - length [x, y, z]) 0 = [uint x, uint y, uint z]"
    by simp
  have nth: "[uint x, uint y, uint z] ! 0 = uint x" "[uint x, uint y, uint z] ! 1 = uint y"
    "[uint x, uint y, uint z] ! 2 = uint z"
    by simp_all
  show ?thesis
    unfolding encode_body_def b Let_def nth b1_eq b2_eq b3_eq b4_eq
    using sextet_bounds [of x y] sextet_bounds [of y z] sextet_bounds [of z z]
    by (simp add: seq_def getitem_base64_chars)
qed

lemma encode_body_2:
  "encode_body [x, y] encoded = Inr (encoded @ spec_pack [x, y])"
proof -
  have b: "map uint [x, y] @ replicate (3 - length [x, y]) 0 = [uint x, uint y, uint (0::byte)]"
    by (simp add: numeral_3_eq_3)
  have nth: "[uint x, uint y, uint (0::byte)] ! 0 = uint x"
    "[uint x, uint y, uint (0::byte)] ! 1 = uint y"
    "[uint x, uint y, uint (0::byte)] ! 2 = uint (0::byte)"
    by simp_all
  show ?thesis
    unfolding encode_body_def b Let_def nth b1_eq b2_eq b3_eq b4_eq
    using sextet_bounds [of x y] sextet_bounds [of y 0]
    by (simp add: seq_def getitem_base64_chars)
qed

lemma encode_body_1:
  "encode_body [x] encoded = Inr (encoded @ spec_pack [x])"
proof -
  have b: "map uint [x] @ replicate (3 - length [x]) 0 = [uint x, uint (0::byte), uint (0::byte)]"
    by (simp add: numeral_3_eq_3)
  have nth: "[uint x, uint (0::byte), uint (0::byte)] ! 0 = uint x"
    "[uint x, uint (0::byte), uint (0::byte)] ! 1 = uint (0::byte)"
    "[uint x, uint (0::byte), uint (0::byte)] ! 2 = uint (0::byte)"
    by simp_all
  show ?thesis
    unfolding encode_body_def b Let_def nth b1_eq b2_eq b3_eq b4_eq
    using sextet_bounds [of x 0]
    by (simp add: seq_def getitem_base64_chars)
qed

lemma encode_body_eq:
  assumes "chunk \<noteq> []" "length chunk \<le> 3"
  shows "encode_body chunk encoded = Inr (encoded @ spec_pack chunk)"
proof -
  from assms consider x where "chunk = [x]" | x y where "chunk = [x, y]"
    | x y z where "chunk = [x, y, z]"
    by (cases chunk rule: spec_pack.cases) auto
  then show ?thesis
    by cases (simp_all only: encode_body_1 encode_body_2 encode_body_3)
qed

lemma spec_pack_take_drop: "spec_pack xs = spec_pack (take 3 xs) @ spec_pack (drop 3 xs)"
  by (cases xs rule: spec_pack.cases) simp_all

lemma py_slice_chunk: "py_slice xs (int i) (int i + 3) = take 3 (drop i xs)"
proof -
  have "nat (int i + 3) = i + 3" by simp
  then show ?thesis
    by (simp add: py_slice_def slice_bound_def drop_take min_def)
qed

lemma encode_loop_eq:
  "encode_loop compressed i encoded = Inr (encoded @ spec_pack (drop i compressed))"
proof (induction compressed i encoded rule: encode_loop.induct)
  case (1 compressed i encoded)
  show ?case
  proof (cases "i < length compressed")
    case False
    then show ?thesis by (simp add: encode_loop.simps [of compressed i])
  next
    case True
    let ?chunk = "take 3 (drop i compressed)"
    have chunk: "?chunk \<noteq> []" "length ?chunk \<le> 3" using True by simp_all
    have body: "encode_body (py_slice compressed (int i) (int i + 3)) encoded
        = Inr (encoded @ spec_pack ?chunk)"
      by (simp only: py_slice_chunk encode_body_eq [OF chunk])
    have "encode_loop compressed i encoded
        = encode_loop compressed (i + 3) (encoded @ spec_pack ?chunk)"
      using True by (subst encode_loop.simps) (simp add: body seq_def)
    also have "\<dots> = Inr ((encoded @ spec_pack ?chunk) @ spec_pack (drop (i + 3) compressed))"
      using True body by (intro "1.IH") simp_all
    finally have run: "encode_loop compressed i encoded
        = Inr (encoded @ spec_pack ?chunk @ spec_pack (drop (i + 3) compressed))"
      by simp
    have "spec_pack ?chunk @ spec_pack (drop (i + 3) compressed) = spec_pack (drop i compressed)"
      using spec_pack_take_drop [of "drop i compressed"] by (simp add: add.commute)
    with run show ?thesis by simp
  qed
qed


section \<open>Normalisation and framing\<close>


lemma py_empty: "py '''' = []"
  by (simp add: py_def)

lemma py_slice_framing: "py_slice bs 2 (- 4) = spec_drop_framing bs"
proof -
  have "rev (drop 4 (rev (drop 2 bs))) = take (length bs - 2 - 4) (drop 2 bs)"
    using rev_drop [of 4 "rev (drop 2 bs)"] by simp
  moreover have "nat (max 0 (int (length bs) - 4)) = length bs - 4"
    by simp
  then have "py_slice bs 2 (- 4) = drop (min 2 (length bs)) (take (length bs - 4) bs)"
    by (simp add: py_slice_def slice_bound_def)
  ultimately show ?thesis
    by (cases "length bs < 2") (simp_all add: spec_drop_framing_def drop_take min_def)
qed

lemma str_find_bound: "str_find sub s = Some i \<Longrightarrow> i + length sub \<le> length s"
proof (induction s arbitrary: i)
  case Nil
  then show ?case by (simp split: if_splits)
next
  case (Cons c cs)
  then show ?case
    by (auto split: if_splits dest: prefix_length_le)
qed

lemma py_replace_delete:
  "old \<noteq> [] \<Longrightarrow> py_replace old [] s = delete_occurrences old s"
proof (induction old "[] :: 'a list" s rule: py_replace.induct)
  case (1 old s)
  show ?case
  proof (cases s)
    case Nil
    with "1.prems" show ?thesis
      by (simp add: py_replace.simps [of old _ "[]"] delete_occurrences.simps [of old "[]"])
  next
    case (Cons c cs)
    show ?thesis
    proof (cases "prefix old s")
      case True
      then have len: "length old \<le> length s" by (rule prefix_length_le)
      have "py_replace old [] s = py_replace old [] (drop (length old) s)"
        using True Cons "1.prems" by (subst py_replace.simps) simp
      also have "\<dots> = delete_occurrences old (drop (length old) s)"
        using True Cons "1.prems" by (intro "1.hyps"(1)) simp_all
      also have "\<dots> = delete_occurrences old s"
        using True Cons "1.prems" len
        by (subst (2) delete_occurrences.simps) simp
      finally show ?thesis .
    next
      case False
      have "py_replace old [] s = c # py_replace old [] cs"
        using False Cons "1.prems" by (subst py_replace.simps) simp
      also have "py_replace old [] cs = delete_occurrences old cs"
        using False Cons "1.prems" "1.hyps"(2) by simp
      also have "c # delete_occurrences old cs = delete_occurrences old s"
      proof (cases "str_find old cs")
        case None
        then show ?thesis using False Cons
          by (simp add: delete_occurrences.simps [of old cs] delete_occurrences.simps [of old "c # cs"])
      next
        case (Some j)
        then show ?thesis using False Cons "1.prems"
          by (simp add: delete_occurrences.simps [of old cs] delete_occurrences.simps [of old "c # cs"])
      qed
      finally show ?thesis .
    qed
  qed
qed


section \<open>The token\<close>

lemma encode_plantuml_spec_pack:
  "encode_plantuml env s =
     (case str_encode_utf8 env
             (py ''@startuml\<newline>''
                @ py_strip (py_replace (py ''@enduml'') [] (py_replace (py ''@startuml'') [] s))
                @ py ''\<newline>@enduml'') of
        Inl e \<Rightarrow> Inl e
      | Inr data \<Rightarrow> Inr (spec_pack (py_slice (zlib_compress env data) 2 (- 4))))"
  unfolding encode_plantuml_def Let_def py_empty
  by (simp add: seq_def encode_loop_eq split: sum.splits)

lemma length_spec_pack: "length (spec_pack xs) = spec_token_length (length xs)"
proof (induction xs rule: spec_pack.induct)
  case (1 byte0 byte1 byte2 rest)
  have "(3 + length rest) div 3 = Suc (length rest div 3)" "(3 + length rest) mod 3 = length rest mod 3"
    by simp_all
  with 1 show ?case
    by (simp add: spec_token_length_def numeral_3_eq_3 [symmetric] add.commute)
qed (simp_all add: spec_token_length_def)

lemma alphabet_symbols: "n < 64 \<Longrightarrow> in_alphabet (symbol n)"
proof -
  have "list_all in_alphabet (py ''0123456789ABCDEFGHIJKLMNOPQRSTUVWXYZabcdefghijklmnopqrstuvwxyz-_'')"
    by (simp add: py_def in_alphabet_def)
  moreover assume "n < 64"
  ultimately show ?thesis
    using length_base64_chars by (simp add: list_all_length symbol_def base64_chars_def)
qed

lemma spec_pack_alphabet: "c \<in> set (spec_pack xs) \<Longrightarrow> in_alphabet c"
proof (induction xs rule: spec_pack.induct)
  case (1 byte0 byte1 byte2 rest)
  then show ?case
    using sextet_bounds [of byte0 byte1] sextet_bounds [of byte1 byte2] sextet_bounds [of byte2 byte2]
    by (auto intro: alphabet_symbols)
next
  case (2 byte0 byte1)
  then show ?case
    using sextet_bounds [of byte0 byte1] sextet_bounds [of byte1 0]
    by (auto intro: alphabet_symbols)
next
  case (3 byte0)
  then show ?case
    using sextet_bounds [of byte0 0] by (auto intro: alphabet_symbols)
next
  case 4
  then show ?case by simp
qed



section \<open>Facts about the string methods\<close>

lemma prefix_sep:
  assumes "c \<notin> set sub"
  shows "prefix sub (xs @ c # ys) \<longleftrightarrow> prefix sub xs"
proof
  assume "prefix sub (xs @ c # ys)"
  then consider "prefix sub xs" | us where "sub = xs @ us" "prefix us (c # ys)"
    by (auto simp: prefix_append)
  then show "prefix sub xs"
  proof cases
    case 1
    then show ?thesis .
  next
    case 2
    with assms have "us = []" by (cases us) auto
    with 2 show ?thesis by simp
  qed
next
  assume "prefix sub xs"
  then show "prefix sub (xs @ c # ys)" by (rule prefix_prefix)
qed

lemma py_replace_Nil: "old \<noteq> [] \<Longrightarrow> py_replace old new [] = []"
  by (simp add: py_replace.simps)

lemma py_replace_sep:
  assumes "old \<noteq> []" "c \<notin> set old"
  shows "py_replace old [] (xs @ c # ys) = py_replace old [] xs @ c # py_replace old [] ys"
  using assms
proof (induction old "[] :: 'a list" xs rule: py_replace.induct)
  case (1 old xs)
  show ?case
  proof (cases xs)
    case Nil
    have "\<not> prefix old (c # ys)"
      using "1.prems" by (cases old) auto
    then have "py_replace old [] (c # ys) = c # py_replace old [] ys"
      using "1.prems" by (subst py_replace.simps) simp
    with Nil "1.prems" show ?thesis by (simp add: py_replace_Nil)
  next
    case (Cons x xs')
    show ?thesis
    proof (cases "prefix old xs")
      case True
      then have len: "length old \<le> length xs" by (rule prefix_length_le)
      have "prefix old (xs @ c # ys)" "drop (length old) (xs @ c # ys) = drop (length old) xs @ c # ys"
        using True "1.prems" len by (simp_all add: prefix_sep)
      then have "py_replace old [] (xs @ c # ys) = py_replace old [] (drop (length old) xs @ c # ys)"
        using "1.prems" by (subst py_replace.simps) simp
      also have "\<dots> = py_replace old [] (drop (length old) xs) @ c # py_replace old [] ys"
        using True Cons "1.prems" by (intro "1.hyps"(1)) simp_all
      also have "py_replace old [] (drop (length old) xs) = py_replace old [] xs"
        using True Cons "1.prems" by (subst (2) py_replace.simps) simp
      finally show ?thesis .
    next
      case False
      have "\<not> prefix old (xs @ c # ys)"
        using False "1.prems" by (simp add: prefix_sep)
      then have "py_replace old [] (xs @ c # ys) = x # py_replace old [] (xs' @ c # ys)"
        using Cons "1.prems" by (subst py_replace.simps) simp
      also have "py_replace old [] (xs' @ c # ys) = py_replace old [] xs' @ c # py_replace old [] ys"
        using False Cons "1.prems" "1.hyps"(2) by simp
      finally have step: "py_replace old [] (xs @ c # ys)
          = (x # py_replace old [] xs') @ c # py_replace old [] ys"
        by simp
      have "x # py_replace old [] xs' = py_replace old [] xs"
        using False Cons "1.prems" by (subst (2) py_replace.simps) simp
      with step show ?thesis by simp
    qed
  qed
qed

lemma py_rstrip_append:
  "py_rstrip (ys @ xs) = (if \<forall>x\<in>set xs. isspace x then py_rstrip ys else ys @ py_rstrip xs)"
  by (simp add: py_rstrip_def dropWhile_append)

lemma py_strip_Cons_space: "isspace c \<Longrightarrow> py_strip (c # s) = py_strip s"
  by (simp add: py_strip_def py_lstrip_def)

lemma py_strip_snoc_space:
  assumes "isspace c"
  shows "py_strip (s @ [c]) = py_strip s"
proof (cases "\<forall>x\<in>set s. isspace x")
  case True
  with assms show ?thesis
    by (auto simp: py_strip_def py_lstrip_def py_rstrip_def dropWhile_append dest: set_dropWhileD)
next
  case False
  then have "dropWhile isspace (s @ [c]) = dropWhile isspace s @ [c]"
    by (auto simp: dropWhile_append)
  with assms show ?thesis
    by (simp add: py_strip_def py_lstrip_def py_rstrip_append)
qed


lemma literals:
  "py ''@startuml'' = [64, 115, 116, 97, 114, 116, 117, 109, 108]"
  "py ''@enduml'' = [64, 101, 110, 100, 117, 109, 108]"
  "py ''```plantuml'' = [96, 96, 96, 112, 108, 97, 110, 116, 117, 109, 108]"
  "py ''```'' = [96, 96, 96]"
  by (simp_all add: py_def)

lemma wrapped_literals:
  "py ''@startuml\<newline>'' = py ''@startuml'' @ [10]"
  "py ''\<newline>@enduml'' = 10 # py ''@enduml''"
  by (simp_all add: py_def)

lemma isspace_newline: "isspace 10"
  by (simp add: isspace_def)

lemma py_replace_markers:
  "py_replace (py ''@startuml'') [] (py ''@startuml'') = []"
  "py_replace (py ''@startuml'') [] (py ''@enduml'') = py ''@enduml''"
  "py_replace (py ''@enduml'') [] (py ''@enduml'') = []"
  by code_simp+

lemma normalise_wrapped:
  "py_strip (py_replace (py ''@enduml'') []
      (py_replace (py ''@startuml'') [] (py ''@startuml\<newline>'' @ s @ py ''\<newline>@enduml'')))
   = py_strip (py_replace (py ''@enduml'') [] (py_replace (py ''@startuml'') [] s))"
proof -
  let ?A = "py ''@startuml''" and ?E = "py ''@enduml''"
  have A: "?A \<noteq> []" "10 \<notin> set ?A" and E: "?E \<noteq> []" "10 \<notin> set ?E"
    by (simp_all add: literals)
  let ?s1 = "py_replace ?A [] s"
  have "py_replace ?A [] (?A @ 10 # (s @ 10 # ?E))
      = py_replace ?A [] ?A @ 10 # (?s1 @ 10 # py_replace ?A [] ?E)"
    by (simp only: py_replace_sep [OF A])
  then have first: "py_replace ?A [] (?A @ 10 # (s @ 10 # ?E)) = [] @ 10 # (?s1 @ 10 # ?E)"
    by (simp only: py_replace_markers)
  have "py_replace ?E [] ([] @ 10 # (?s1 @ 10 # ?E))
      = py_replace ?E [] [] @ 10 # (py_replace ?E [] ?s1 @ 10 # py_replace ?E [] ?E)"
    by (simp only: py_replace_sep [OF E])
  then have second: "py_replace ?E [] ([] @ 10 # (?s1 @ 10 # ?E)) = 10 # (py_replace ?E [] ?s1 @ [10])"
    by (simp add: py_replace_markers py_replace_Nil [OF E(1)])
  have "py_strip (10 # (py_replace ?E [] ?s1 @ [10])) = py_strip (py_replace ?E [] ?s1)"
    using py_strip_snoc_space [OF isspace_newline, of "10 # py_replace ?E [] ?s1"]
    by (simp add: py_strip_Cons_space isspace_newline)
  with first second show ?thesis
    by (simp add: wrapped_literals)
qed



section \<open>Finding markers\<close>

lemma py_in_sublist: "py_in sub s \<longleftrightarrow> sublist sub s"
  unfolding py_in_def
proof (induction s)
  case Nil
  then show ?case by simp
next
  case (Cons c cs)
  then show ?case by (auto simp: sublist_Cons_right)
qed

lemma str_find_prefix: "prefix sub s \<Longrightarrow> str_find sub s = Some 0"
  by (cases s) simp_all

lemma str_find_sep:
  assumes "sub \<noteq> []" "c \<notin> set sub"
  shows "str_find sub (xs @ c # ys)
    = (case str_find sub xs of
         Some i \<Rightarrow> Some i
       | None \<Rightarrow> (case str_find sub ys of
                     Some j \<Rightarrow> Some (length xs + 1 + j)
                   | None \<Rightarrow> None))"
proof (induction xs)
  case Nil
  have "\<not> prefix sub (c # ys)" using assms by (cases sub) auto
  with assms show ?case by (simp split: option.splits)
next
  case (Cons x xs)
  have "prefix sub ((x # xs) @ c # ys) \<longleftrightarrow> prefix sub (x # xs)"
    using assms(2) by (rule prefix_sep)
  with Cons show ?case
    by (auto simp: option.map_comp comp_def split: option.splits)
qed

lemma str_index_0: "str_index s sub 0 = str_find sub s"
  by (cases "str_find sub s") (simp_all add: str_index_def)

lemma try_end_markers_None:
  "try_end_markers text p ms = None \<longleftrightarrow> list_all (\<lambda>e. str_index text e p = None) ms"
  by (induction ms) (auto split: option.splits)

lemma try_end_markers_find:
  assumes "find (\<lambda>e. str_index text e p \<noteq> None) ms = Some e" "str_index text e p = Some k"
  shows "try_end_markers text p ms = Some (ensure_tags (py_strip (py_slice text (int p) (int k))))"
  using assms by (induction ms) (auto split: if_splits)

lemma ensure_tags_spec: "ensure_tags code = spec_with_markers code"
proof -
  let ?A = "py ''@startuml''" and ?E = "py ''@enduml''"
  have "suffix ?E ((?A @ [10]) @ code) \<longleftrightarrow> suffix ?E code"
  proof
    assume "suffix ?E ((?A @ [10]) @ code)"
    then have "suffix ?E code \<or> (\<exists>zs. ?E = zs @ code \<and> suffix zs (?A @ [10]))"
      by (rule suffix_append [THEN iffD1])
    then consider "suffix ?E code" | zs where "?E = zs @ code" "suffix zs (?A @ [10])"
      by blast
    then show "suffix ?E code"
    proof cases
      case 1
      then show ?thesis .
    next
      case 2
      have "10 \<notin> set ?E" by (simp add: literals)
      with 2 have "zs = []" by (cases zs rule: rev_cases) auto
      with 2 show ?thesis by simp
    qed
  next
    assume "suffix ?E code"
    then show "suffix ?E ((?A @ [10]) @ code)" by (rule suffix_appendI)
  qed
  then show ?thesis
    by (simp add: ensure_tags_def spec_with_markers_def Let_def wrapped_literals)
qed



lemma try_start_markers_step:
  "try_start_markers text (m # ms)
     = (if py_in m text \<and> \<not> no_end_marker_from text (advanced_start text m)
        then Inr (try_end_markers text (advanced_start text m) end_markers)
        else try_start_markers text ms)"
proof (cases "str_find m text")
  case None
  then show ?thesis by (simp add: py_in_def)
next
  case (Some idx)
  then show ?thesis
    by (auto simp: py_in_def str_index_0 advanced_start_def no_end_marker_from_def Let_def
          try_end_markers_None [symmetric] split: option.splits)
qed

lemma try_start_markers_both:
  "try_start_markers text start_markers
     = (if py_in (py ''```plantuml'') text
           \<and> \<not> no_end_marker_from text (advanced_start text (py ''```plantuml''))
        then Inr (try_end_markers text (advanced_start text (py ''```plantuml'')) end_markers)
        else if py_in (py ''@startuml'') text
           \<and> \<not> no_end_marker_from text (advanced_start text (py ''@startuml''))
        then Inr (try_end_markers text (advanced_start text (py ''@startuml'')) end_markers)
        else Inr None)"
  by (simp only: start_markers_def try_start_markers_step try_start_markers.simps(1))

lemma extract_match:
  assumes "find (\<lambda>m. py_in m text) start_markers = Some start_marker"
    and "str_find start_marker text = Some idx"
    and "start_idx = (if start_marker = py ''```plantuml'' then idx + length start_marker else idx)"
    and "find (\<lambda>e. str_index text e start_idx \<noteq> None) end_markers = Some end_marker"
    and "str_index text end_marker start_idx = Some end_idx"
    and "payload = py_strip (py_slice text (int start_idx) (int end_idx))"
  shows "extract_plantuml_code text
     = Inr ((if prefix (py ''@startuml'') payload then [] else py ''@startuml\<newline>'')
              @ payload
              @ (if suffix (py ''@enduml'') payload then [] else py ''\<newline>@enduml''))"
proof -
  have adv: "advanced_start text start_marker = start_idx"
    using assms(2,3) by (simp add: advanced_start_def)
  have found: "try_end_markers text start_idx end_markers = Some (spec_with_markers payload)"
    using try_end_markers_find [OF assms(4,5)] assms(6) by (simp add: ensure_tags_spec)
  then have some: "\<not> no_end_marker_from text start_idx"
    by (simp add: no_end_marker_from_def try_end_markers_None [symmetric])
  have "py_in (py ''```plantuml'') text \<and> start_marker = py ''```plantuml'' \<or>
      \<not> py_in (py ''```plantuml'') text \<and> py_in (py ''@startuml'') text
        \<and> start_marker = py ''@startuml''"
    using assms(1) by (auto simp: start_markers_def split: if_splits)
  then have "try_start_markers text start_markers = Inr (Some (spec_with_markers payload))"
    using adv found some by (auto simp: try_start_markers_both)
  then show ?thesis
    by (simp add: extract_plantuml_code_def try_except_def seq_def spec_with_markers_def)
qed



lemma marker_searches:
  "str_find (py ''```plantuml'') (py ''@startuml'') = None"
  "str_find (py ''```plantuml'') (py ''@enduml'') = None"
  "str_find (py ''```'') (py ''@startuml'') = None"
  "str_find (py ''```'') (py ''@enduml'') = None"
  "str_find (py ''@enduml'') (py ''@startuml'') = None"
  "str_find (py ''@enduml'') (py ''@enduml'') = Some 0"
  by code_simp+

lemma fence_in: "py_in (py ''```plantuml'') s \<Longrightarrow> py_in (py ''```'') s"
proof -
  assume "py_in (py ''```plantuml'') s"
  then obtain ps ss where "s = ps @ py ''```plantuml'' @ ss"
    by (auto simp: py_in_sublist sublist_def)
  moreover have "py ''```plantuml'' = py ''```'' @ py ''plantuml''"
    by (simp add: py_def)
  ultimately have "s = ps @ py ''```'' @ (py ''plantuml'' @ ss)" by simp
  then show ?thesis unfolding py_in_sublist sublist_def by blast
qed

lemma py_rstrip_prefix: "prefix (py_rstrip s) s"
proof -
  have "suffix (dropWhile isspace (rev s)) (rev s)" by (rule suffix_dropWhile)
  then show ?thesis by (simp add: py_rstrip_def suffix_to_prefix)
qed

lemma py_slice_nat: "py_slice xs (int a) (int b) = drop a (take b xs)"
  by (simp add: py_slice_def slice_bound_def min_def)

lemma py_rstrip_spaces: "\<forall>x\<in>set xs. isspace x \<Longrightarrow> py_rstrip xs = []"
  by (simp add: py_rstrip_def)

lemma py_rstrip_after: "py_rstrip ys = ys \<Longrightarrow> py_rstrip (ys @ xs) = ys @ py_rstrip xs"
  by (simp add: py_rstrip_append py_rstrip_spaces)



section \<open>Facts about the tools\<close>

lemma get_uml_diagram_returns: "\<exists>out. get_uml_diagram env yml_body output_format = Inr out"
  by (simp add: get_uml_diagram_def try_except_def Let_def split: sum.splits)

lemma get_uml_diagram_steps:
  defines "prompt y \<equiv> py_replace (py ''{YAML_FILE}'') y UML_GENERATION_PROMPT"
  shows
  "(\<forall>e. invoke_model env model_id (request_body (prompt yml_body)) = Inl e \<longrightarrow>
      get_uml_diagram env yml_body output_format = Inr (uml_error_result (str_of e))) \<and>
   (\<forall>text e. invoke_model env model_id (request_body (prompt yml_body)) = Inr text \<longrightarrow>
      extract_plantuml_code text = Inl e \<longrightarrow>
      get_uml_diagram env yml_body output_format = Inr (uml_error_result (str_of e))) \<and>
   (\<forall>text code e. invoke_model env model_id (request_body (prompt yml_body)) = Inr text \<longrightarrow>
      extract_plantuml_code text = Inr code \<longrightarrow>
      get_diagram_from_server env code output_format = Inl e \<longrightarrow>
      get_uml_diagram env yml_body output_format = Inr (uml_error_result (str_of e))) \<and>
   (\<forall>text code data e. invoke_model env model_id (request_body (prompt yml_body)) = Inr text \<longrightarrow>
      extract_plantuml_code text = Inr code \<longrightarrow>
      get_diagram_from_server env code output_format = Inr data \<longrightarrow>
      upload_to_s3 env data (py ''diagrams/'' @ uuid4 env @ py ''.'' @ output_format) = Inl e \<longrightarrow>
      get_uml_diagram env yml_body output_format = Inr (uml_error_result (str_of e)))"
  by (simp add: prompt_def get_uml_diagram_def try_except_def seq_def Let_def uml_error_result_def)

lemma get_diagram_from_server_status:
  assumes "encode_plantuml env code = Inr encoded"
    and "http_request_get env (PLANTUML_SERVER @ py ''/'' @ output_format @ py ''/'' @ encoded)
           = Inr (status, data)"
    and "status \<noteq> 200"
  shows "get_diagram_from_server env code output_format
     = Inl (Exception (py ''Error getting diagram from server: Failed to get diagram: HTTP ''
                         @ str_int status))"
proof -
  have "py ''Error getting diagram from server: '' @ py ''Failed to get diagram: HTTP ''
      = py ''Error getting diagram from server: Failed to get diagram: HTTP ''"
    by (simp add: py_def)
  then have "py ''Error getting diagram from server: '' @ py ''Failed to get diagram: HTTP '' @ m
      = py ''Error getting diagram from server: Failed to get diagram: HTTP '' @ m" for m
    by (simp only: append_assoc [symmetric])
  with assms show ?thesis
    by (simp add: get_diagram_from_server_def try_except_def seq_def Let_def)
qed

lemma get_uml_diagram_transport_fault:
  assumes "invoke_model env model_id
             (request_body (py_replace (py ''{YAML_FILE}'') yml_body UML_GENERATION_PROMPT))
           = Inr text"
    and "extract_plantuml_code text = Inr code"
    and "encode_plantuml env code = Inr encoded"
    and "http_request_get env (PLANTUML_SERVER @ py ''/'' @ output_format @ py ''/'' @ encoded)
           = Inr (status, data)"
    and "status \<noteq> 200"
  shows "get_uml_diagram env yml_body output_format
     = Inr (JObject
         [(py ''error'',
             JString (py ''Error getting diagram from server: Failed to get diagram: HTTP ''
                        @ str_int status)),
          (py ''codeBody'', JNull),
          (py ''diagramUri'', JNull)])"
  using assms(1,2) get_diagram_from_server_status [OF assms(3,4,5)]
  by (simp add: get_uml_diagram_def try_except_def seq_def Let_def)

lemma get_uml_diagram_shapes:
  "\<exists>kvs. get_uml_diagram env yml_body output_format = Inr (JObject kvs) \<and>
     (map fst kvs = [py ''codeBody'', py ''diagramUri'', py ''summary''] \<or>
      map fst kvs = [py ''error'', py ''codeBody'', py ''diagramUri''])"
  by (simp add: get_uml_diagram_def try_except_def seq_def Let_def split: sum.splits)

lemma get_unit_test_code_shapes:
  "\<exists>kvs. get_unit_test_code env yml_body user_query = Inr (JObject kvs) \<and>
     (map fst kvs = [py ''codeBody''] \<or> map fst kvs = [py ''error'', py ''codeBody''])"
  by (simp add: get_unit_test_code_def try_except_def seq_def Let_def split: sum.splits)

lemma search_knowledge_base_shapes:
  "\<exists>kvs. search_knowledge_base env query kb_id max_results = Inr (JObject kvs) \<and>
     (map fst kvs = [py ''query'', py ''results'', py ''count''] \<or>
      map fst kvs = [py ''error'', py ''results''])"
  by (simp add: search_knowledge_base_def try_except_def seq_def Let_def split: sum.splits)

lemma field_literals:
  "py ''error'' \<noteq> py ''codeBody''" "py ''error'' \<noteq> py ''diagramUri''"
  "py ''error'' \<noteq> py ''summary''" "py ''error'' \<noteq> py ''query''"
  "py ''error'' \<noteq> py ''results''" "py ''error'' \<noteq> py ''count''"
  by (simp_all add: py_def)


lemma get_uml_diagram_success:
  assumes "invoke_model env model_id
             (request_body (py_replace (py ''{YAML_FILE}'') yml_body UML_GENERATION_PROMPT))
           = Inr text"
    and "extract_plantuml_code text = Inr code"
    and "get_diagram_from_server env code output_format = Inr data"
    and "upload_to_s3 env data (py ''diagrams/'' @ uuid4 env @ py ''.'' @ output_format) = Inr uri"
  shows "get_uml_diagram env yml_body output_format
     = Inr (JObject
         [(py ''codeBody'', JString code),
          (py ''diagramUri'', JString uri),
          (py ''summary'', JString (py ''UML diagram generated successfully and saved to '' @ uri))])"
  using assms by (simp add: get_uml_diagram_def try_except_def seq_def Let_def)

lemma demo_invoke_model:
  "invoke_model (demo_services answer status storage_ok) model body = Inr answer"
  by (simp add: demo_services_def)

lemma demo_http_request_get:
  "http_request_get (demo_services answer status storage_ok) url = Inr (status, [137, 80, 78, 71])"
  by (simp add: demo_services_def)

lemma demo_uuid4:
  "uuid4 (demo_services answer status storage_ok) = py ''0f8fad5b-d9cb-469f-a165-70867728950e''"
  by (simp add: demo_services_def)

lemma demo_extract: "extract_plantuml_code demo_diagram = Inr demo_diagram"
  by code_simp

lemma demo_codec:
  "str_encode_utf8 (demo_services answer status storage_ok)
     = str_encode_utf8 (demo_services [] 200 True)"
  "zlib_compress (demo_services answer status storage_ok)
     = zlib_compress (demo_services [] 200 True)"
  by (simp_all add: demo_services_def)

lemma encode_plantuml_codec:
  assumes "str_encode_utf8 env = str_encode_utf8 env'" "zlib_compress env = zlib_compress env'"
  shows "encode_plantuml env s = encode_plantuml env' s"
  unfolding encode_plantuml_def by (simp only: assms)

lemma demo_encode:
  "encode_plantuml (demo_services answer status storage_ok) demo_diagram
     = Inr (py ''G7DqON9qTMri2a4jFa8w86Xf2a1bRcHrRMm'')"
proof -
  have "encode_plantuml (demo_services [] 200 True) demo_diagram
      = Inr (py ''G7DqON9qTMri2a4jFa8w86Xf2a1bRcHrRMm'')"
    by code_simp
  with encode_plantuml_codec [OF demo_codec] show ?thesis
    by (rule trans)
qed

lemma try_end_markers_first:
  "try_end_markers text p ms
     = (case find (\<lambda>e. str_index text e p \<noteq> None) ms of
          None \<Rightarrow> None
        | Some e \<Rightarrow>
            (case str_index text e p of
               None \<Rightarrow> None
             | Some k \<Rightarrow> Some (spec_with_markers (py_strip (py_slice text (int p) (int k))))))"
  by (induction ms) (auto simp: ensure_tags_spec split: option.splits)

section \<open>The claims\<close>

subsection \<open>The encoder\<close>

text \<open>
  C1. For every input string, \<open>encode_plantuml\<close> returns the token that the five steps of
  the specification describe: the two marker literals deleted (first every occurrence of
  \<open>@startuml\<close>, then every occurrence of \<open>@enduml\<close>) and the whitespace trimmed, the body
  re-wrapped, the text encoded as UTF-8, the compressed bytes without the first 2 and the
  last 4, and these packed three at a time into symbols of the alphabet, a final group of
  one byte giving two symbols and a final group of two bytes giving three. If the encoding
  raises, both raise the same exception.
\<close>

theorem encode_plantuml_refines_spec:
  "encode_plantuml env s = spec_encode env s"
proof -
  have ne: "py ''@startuml'' \<noteq> []" "py ''@enduml'' \<noteq> []"
    by (simp_all add: py_def)
  show ?thesis
    unfolding encode_plantuml_def spec_encode_def spec_rewrap_def Let_def py_empty
    by (simp add: seq_def py_replace_delete [OF ne(1)] py_replace_delete [OF ne(2)]
        py_slice_framing encode_loop_eq split: sum.splits)
qed

theorem encode_plantuml_refines_spec_witness:
  "encode_plantuml (demo_services [] 200 True) demo_diagram
     = Inr (py ''G7DqON9qTMri2a4jFa8w86Xf2a1bRcHrRMm'')"
proof -
  have "spec_encode (demo_services [] 200 True) demo_diagram
      = Inr (py ''G7DqON9qTMri2a4jFa8w86Xf2a1bRcHrRMm'')"
    by code_simp
  with encode_plantuml_refines_spec [of "demo_services [] 200 True" demo_diagram]
  show ?thesis by simp
qed

text \<open>
  C7. Whenever the text can be encoded as UTF-8, \<open>encode_plantuml\<close> returns a token, and
  with \<open>n\<close> the number of bytes of \<open>compressed\<close> (the output of the compressor without
  its first 2 and last 4 bytes) the token has \<open>4 * (n div 3)\<close> symbols, plus 2 for a
  remainder of one byte and plus 3 for a remainder of two.
\<close>

theorem encode_plantuml_token_length:
  assumes "str_encode_utf8 env
             (py ''@startuml\<newline>''
                @ py_strip (py_replace (py ''@enduml'') [] (py_replace (py ''@startuml'') [] s))
                @ py ''\<newline>@enduml'') = Inr data"
    and "compressed = py_slice (zlib_compress env data) 2 (- 4)"
    and "n = length compressed"
  shows "\<exists>token. encode_plantuml env s = Inr token \<and>
           length token
             = 4 * (n div 3) + (if n mod 3 = 0 then 0 else if n mod 3 = 1 then 2 else 3)"
  using assms
  by (simp add: encode_plantuml_spec_pack length_spec_pack spec_token_length_def)

theorem encode_plantuml_token_length_witness:
  "\<exists>token. encode_plantuml (demo_services [] 200 True) (py ''A->B'') = Inr token \<and>
     length token = 4 * (22 div 3) + 2"
proof -
  let ?env = "demo_services [] 200 True"
  let ?data = "map of_nat (py ''@startuml\<newline>A->B\<newline>@enduml'') :: byte list"
  have enc: "str_encode_utf8 ?env
      (py ''@startuml\<newline>''
         @ py_strip (py_replace (py ''@enduml'') [] (py_replace (py ''@startuml'') [] (py ''A->B'')))
         @ py ''\<newline>@enduml'') = Inr ?data"
    by code_simp
  have len: "22 = length (py_slice (zlib_compress ?env ?data) 2 (- 4))"
    by code_simp
  from encode_plantuml_token_length [OF enc refl len] show ?thesis by simp
qed

text \<open>
  C8. Every character of a token returned by \<open>encode_plantuml\<close> is a digit, an upper-case
  or lower-case letter, \<open>-\<close> or \<open>_\<close>.
\<close>

theorem encode_plantuml_alphabet:
  assumes "encode_plantuml env s = Inr token"
  shows "\<forall>c \<in> set token. in_alphabet c"
  using assms
  by (auto simp: encode_plantuml_spec_pack split: sum.splits dest: spec_pack_alphabet)

theorem encode_plantuml_alphabet_witness:
  "encode_plantuml (demo_services [] 200 True) (py ''A->B'')
     = Inr (py ''G7DqON9qTMri2a4jFa8AG6LkP7LjR0'') \<and>
   list_all in_alphabet (py ''G7DqON9qTMri2a4jFa8AG6LkP7LjR0'')"
proof -
  have token: "encode_plantuml (demo_services [] 200 True) (py ''A->B'')
      = Inr (py ''G7DqON9qTMri2a4jFa8AG6LkP7LjR0'')"
    by code_simp
  from encode_plantuml_alphabet [OF token] token show ?thesis
    by (simp only: list_all_iff simp_thms)
qed

text \<open>
  C10. A source that already carries the markers encodes to the same token as its bare
  body: \<open>encode_plantuml("@startuml\n" + s + "\n@enduml")\<close> equals \<open>encode_plantuml(s)\<close>.
\<close>

theorem encode_plantuml_prewrapped:
  "encode_plantuml env (py ''@startuml\<newline>'' @ s @ py ''\<newline>@enduml'') = encode_plantuml env s"
  unfolding encode_plantuml_def Let_def py_empty normalise_wrapped ..

theorem encode_plantuml_prewrapped_witness:
  "encode_plantuml (demo_services [] 200 True)
       (py ''@startuml\<newline>'' @ py ''A->B: hi '' @ py ''\<newline>@enduml'')
     = Inr (py ''G7DqON9qTMri2a4jFa8w86Xf2a1bRcHrRMm'')"
proof -
  have "encode_plantuml (demo_services [] 200 True) (py ''A->B: hi '')
      = Inr (py ''G7DqON9qTMri2a4jFa8w86Xf2a1bRcHrRMm'')"
    by code_simp
  with encode_plantuml_prewrapped [of "demo_services [] 200 True" "py ''A->B: hi ''"]
  show ?thesis by simp
qed


subsection \<open>The extractor\<close>

text \<open>
  C2, as the code has it. For every input text, \<open>extract_plantuml_code\<close> uses the first
  of \<open>```plantuml\<close>, \<open>@startuml\<close> that occurs in the text and has an end marker at or
  after its start position; a marker that occurs without one is passed over. The start
  position is past the first occurrence of \<open>```plantuml\<close>, and at the first occurrence of
  \<open>@startuml\<close>. The payload ends at the first of \<open>```\<close>, \<open>@enduml\<close> found from that
  position; it is trimmed, gets \<open>@startuml\<close> and a newline in front unless it starts
  with \<open>@startuml\<close>, and a newline and \<open>@enduml\<close> behind unless it ends with
  \<open>@enduml\<close>. Without such a start marker the extraction error is raised.
\<close>

theorem extract_plantuml_code_first_matched:
  "extract_plantuml_code text = spec_extract text"
proof -
  let ?F = "py ''```plantuml''" and ?A = "py ''@startuml''"
  have msg: "py ''Could not extract PlantUML code: '' @ py ''No valid PlantUML code markers found''
      = py ''Could not extract PlantUML code: No valid PlantUML code markers found''"
    by (simp add: py_def)
  have run: "extract_plantuml_code text
      = (if marker_matched text ?F
         then (case try_end_markers text (advanced_start text ?F) end_markers of
                 None \<Rightarrow> Inl extraction_error | Some code \<Rightarrow> Inr code)
         else if marker_matched text ?A
         then (case try_end_markers text (advanced_start text ?A) end_markers of
                 None \<Rightarrow> Inl extraction_error | Some code \<Rightarrow> Inr code)
         else Inl extraction_error)"
    by (simp add: extract_plantuml_code_def try_except_def seq_def try_start_markers_both
        marker_matched_def extraction_error_def msg split: option.splits)
  have closed: "(case try_end_markers text p end_markers of
                   None \<Rightarrow> Inl extraction_error | Some code \<Rightarrow> Inr code)
      = (case find (\<lambda>e. str_index text e p \<noteq> None) end_markers of
           None \<Rightarrow> Inl extraction_error
         | Some e \<Rightarrow>
             (case str_index text e p of
                None \<Rightarrow> Inl extraction_error
              | Some k \<Rightarrow> Inr (spec_with_markers (py_strip (py_slice text (int p) (int k))))))"
    for p
    by (auto simp: try_end_markers_first split: option.splits)
  have pick: "find (marker_matched text) start_markers
      = (if marker_matched text ?F then Some ?F
         else if marker_matched text ?A then Some ?A else None)"
    by (simp add: start_markers_def)
  show ?thesis
    unfolding run closed spec_extract_def pick Let_def by simp
qed

theorem extract_plantuml_code_first_matched_witness:
  "extract_plantuml_code (py ''```plantuml\<newline>@startuml\<newline>A->B: hi\<newline>@enduml\<newline>```'')
     = Inr (py ''@startuml\<newline>A->B: hi\<newline>@enduml'')"
proof -
  have "spec_extract (py ''```plantuml\<newline>@startuml\<newline>A->B: hi\<newline>@enduml\<newline>```'')
      = Inr (py ''@startuml\<newline>A->B: hi\<newline>@enduml'')"
    by code_simp
  with extract_plantuml_code_first_matched
    [of "py ''```plantuml\<newline>@startuml\<newline>A->B: hi\<newline>@enduml\<newline>```''"]
  show ?thesis by simp
qed

text \<open>
  C2, as the claim states it, with the first start marker that the text contains: in the
  text below that is the fenced opener at index 12, and no end marker occurs from
  position 23; the code returns the payload of the bare begin marker at index 0, closed
  by the fence at index 12.
\<close>

theorem extract_first_present_marker_counterexample:
  "find (\<lambda>m. py_in m (py ''@startuml\<newline>A\<newline>```plantuml'')) start_markers
     = Some (py ''```plantuml'') \<and>
   str_find (py ''```plantuml'') (py ''@startuml\<newline>A\<newline>```plantuml'') = Some 12 \<and>
   str_index (py ''@startuml\<newline>A\<newline>```plantuml'') (py ''```'') 23 = None \<and>
   str_index (py ''@startuml\<newline>A\<newline>```plantuml'') (py ''@enduml'') 23 = None \<and>
   extract_plantuml_code (py ''@startuml\<newline>A\<newline>```plantuml'')
     = Inr (py ''@startuml\<newline>A\<newline>@enduml'') \<and>
   str_find (py ''@startuml'') (py ''@startuml\<newline>A\<newline>```plantuml'') = Some 0 \<and>
   str_index (py ''@startuml\<newline>A\<newline>```plantuml'') (py ''```'') 0 = Some 12 \<and>
   py_strip (py_slice (py ''@startuml\<newline>A\<newline>```plantuml'') 0 12) = py ''@startuml\<newline>A''"
  by code_simp

text \<open>
  C5, as the code has it. \<open>extract_plantuml_code\<close> raises its extraction error (\<open>Could not
  extract PlantUML code: No valid PlantUML code markers found\<close>) if and only if every
  start marker that occurs in the text has no end marker at or after its start position,
  which includes a text without any start marker. Otherwise it returns.
\<close>

theorem extract_plantuml_code_fails_iff:
  "(extract_plantuml_code text = Inl extraction_error \<longleftrightarrow> every_marker_unmatched text) \<and>
   (every_marker_unmatched text \<or> (\<exists>code. extract_plantuml_code text = Inr code))"
proof -
  have some: "\<exists>code. try_end_markers text p end_markers = Some code"
    if "\<not> no_end_marker_from text p" for p
    using that by (cases "try_end_markers text p end_markers")
      (simp_all add: no_end_marker_from_def try_end_markers_None [symmetric])
  have msg: "py ''Could not extract PlantUML code: '' @ py ''No valid PlantUML code markers found''
      = py ''Could not extract PlantUML code: No valid PlantUML code markers found''"
    by (simp add: py_def)
  show ?thesis
    using some [of "advanced_start text (py ''```plantuml'')"]
      some [of "advanced_start text (py ''@startuml'')"]
    by (auto simp: extract_plantuml_code_def try_except_def seq_def start_markers_def
          try_start_markers_both [unfolded start_markers_def] every_marker_unmatched_def
          extraction_error_def msg
        simp del: try_start_markers.simps)
qed

theorem extract_plantuml_code_fails_iff_witness:
  "every_marker_unmatched (py ''no diagram here'') \<and>
   extract_plantuml_code (py ''no diagram here'') = Inl extraction_error"
proof -
  have "every_marker_unmatched (py ''no diagram here'')"
    by code_simp
  with extract_plantuml_code_fails_iff [of "py ''no diagram here''"] show ?thesis
    by simp
qed

text \<open>
  C5, as the claim states it, with the one start marker that is selected: in the text
  below the fenced opener is the first marker of the list that occurs, and neither end
  marker follows it, yet the bare begin marker before it is matched by the fence and the
  extraction returns.
\<close>

theorem extract_selected_marker_counterexample:
  "selected_marker_unmatched (py ''@startuml\<newline>A\<newline>```plantuml'') \<and>
   extract_plantuml_code (py ''@startuml\<newline>A\<newline>```plantuml'')
     = Inr (py ''@startuml\<newline>A\<newline>@enduml'')"
  by code_simp

text \<open>
  C6, as the code has it. For a body \<open>s\<close> without marker and fence literals, the
  extraction of \<open>"@startuml\n" + s + "\n@enduml"\<close> keeps the leading whitespace of \<open>s\<close>
  and removes the trailing whitespace only; a body of whitespace alone disappears
  together with its line.
\<close>

theorem extract_plantuml_code_wrapped:
  assumes "\<not> py_in (py ''@startuml'') s" "\<not> py_in (py ''@enduml'') s" "\<not> py_in (py ''```'') s"
  shows "extract_plantuml_code (py ''@startuml\<newline>'' @ s @ py ''\<newline>@enduml'')
     = Inr (if list_all isspace s then py ''@startuml\<newline>@enduml''
            else py ''@startuml\<newline>'' @ py_rstrip s @ py ''\<newline>@enduml'')"
proof -
  let ?A = "py ''@startuml''" and ?E = "py ''@enduml''"
  let ?F = "py ''```plantuml''" and ?C = "py ''```''"
  let ?text = "?A @ 10 # (s @ 10 # ?E)"
  let ?k = "length ?A + 1 + (length s + 1 + 0)"
  let ?payload = "?A @ (if list_all isspace s then [] else 10 # py_rstrip s)"
  have sep: "?F \<noteq> []" "10 \<notin> set ?F" "?C \<noteq> []" "10 \<notin> set ?C" "?E \<noteq> []" "10 \<notin> set ?E"
    "?A \<noteq> []" "10 \<notin> set ?A"
    by (simp_all add: literals)
  have "\<not> py_in ?F s" using assms(3) fence_in [of s] by blast
  with assms have none: "str_find ?F s = None" "str_find ?C s = None" "str_find ?E s = None"
    by (simp_all add: py_in_def)
  have noF: "\<not> py_in ?F ?text"
    by (simp add: py_in_def str_find_sep [OF sep(1,2)] marker_searches none)
  have inA: "py_in ?A ?text" "str_find ?A ?text = Some 0"
    by (simp_all add: py_in_def str_find_prefix)
  have first: "find (\<lambda>m. py_in m ?text) start_markers = Some ?A"
    using noF inA(1) by (simp add: start_markers_def)
  have noC: "str_index ?text ?C 0 = None"
    by (simp add: str_index_0 str_find_sep [OF sep(3,4)] marker_searches none)
  have atE: "str_index ?text ?E 0 = Some ?k"
    by (simp add: str_index_0 str_find_sep [OF sep(5,6)] marker_searches none)
  have last: "find (\<lambda>e. str_index ?text e 0 \<noteq> None) end_markers = Some ?E"
    using noC atE by (simp add: end_markers_def)
  have start: "(0::nat) = (if ?A = ?F then 0 + length ?A else 0)"
    by (simp add: literals)
  have "take (length (?A @ 10 # s @ [10])) ((?A @ 10 # s @ [10]) @ ?E) = ?A @ 10 # s @ [10]"
  proof -
    have "take (length xs) (xs @ ys) = xs" for xs ys :: pystr by simp
    then show ?thesis .
  qed
  moreover have "length (?A @ 10 # s @ [10]) = ?k" "(?A @ 10 # s @ [10]) @ ?E = ?text"
    by simp_all
  ultimately have "take ?k ?text = ?A @ 10 # s @ [10]"
    by (simp only:)
  then have slice: "py_slice ?text (int 0) (int ?k) = ?A @ 10 # s @ [10]"
    by (simp only: py_slice_nat drop_0)
  have "\<not> isspace 64" "\<not> isspace 108" by (simp_all add: isspace_def)
  then have ends: "dropWhile isspace (?A @ xs) = ?A @ xs" "py_rstrip ?A = ?A" for xs
    by (simp_all add: literals py_rstrip_def)
  have "py_rstrip ((?A @ 10 # s) @ [10]) = py_rstrip (?A @ 10 # s)"
    using isspace_newline by (simp only: py_rstrip_append [of _ "[10]"]) simp
  then have "py_rstrip (?A @ 10 # s @ [10]) = ?A @ py_rstrip (10 # s)"
    using py_rstrip_after [OF ends(2), of "10 # s"] by simp
  moreover have "py_rstrip (10 # s) = (if list_all isspace s then [] else 10 # py_rstrip s)"
    using py_rstrip_append [of "[10]" s] py_rstrip_spaces [of "[10]"] isspace_newline
    by (simp add: list_all_iff)
  ultimately have strip: "py_strip (?A @ 10 # s @ [10]) = ?payload"
    using ends(1) [of "10 # s @ [10]"] by (simp add: py_strip_def py_lstrip_def)
  have payload: "?payload = py_strip (py_slice ?text (int 0) (int ?k))"
    by (simp only: slice strip)
  have pre: "prefix ?A ?payload" by simp
  have suf: "\<not> suffix ?E ?payload"
  proof (cases "list_all isspace s")
    case True
    then show ?thesis by (simp add: literals suffix_Cons)
  next
    case False
    have "\<not> suffix ?E (?A @ 10 # py_rstrip s)"
    proof
      assume "suffix ?E (?A @ 10 # py_rstrip s)"
      then have "suffix ?E (10 # py_rstrip s) \<or>
          (\<exists>zs. ?E = zs @ 10 # py_rstrip s \<and> suffix zs ?A)"
        by (rule suffix_append [THEN iffD1])
      with sep(6) have "suffix ?E (10 # py_rstrip s)" by auto
      with sep(6) have "suffix ?E (py_rstrip s)" by (auto simp: suffix_Cons)
      then have "sublist ?E (py_rstrip s)" by (rule suffix_imp_sublist)
      moreover have "sublist (py_rstrip s) s"
        using py_rstrip_prefix by (rule prefix_imp_sublist)
      ultimately have "sublist ?E s" by (rule sublist_order.order_trans)
      with assms(2) show False by (simp add: py_in_sublist)
    qed
    with False show ?thesis by simp
  qed
  have "extract_plantuml_code ?text
      = Inr ((if prefix ?A ?payload then [] else py ''@startuml\<newline>'') @ ?payload
             @ (if suffix ?E ?payload then [] else py ''\<newline>@enduml''))"
    using first inA(2) start last atE payload by (rule extract_match)
  then have "extract_plantuml_code ?text = Inr (?payload @ 10 # ?E)"
    using pre suf by (simp only: if_True if_False wrapped_literals append_Nil)
  moreover have "?A @ 10 # ?E = py ''@startuml\<newline>@enduml''"
    by (simp add: py_def)
  ultimately show ?thesis
    by (simp add: wrapped_literals)
qed

theorem extract_plantuml_code_wrapped_witness:
  "extract_plantuml_code (py ''@startuml\<newline>'' @ py '' A->B: hi  '' @ py ''\<newline>@enduml'')
     = Inr (py ''@startuml\<newline> A->B: hi\<newline>@enduml'')"
proof -
  let ?s = "py '' A->B: hi  ''"
  have h: "\<not> py_in (py ''@startuml'') ?s" "\<not> py_in (py ''@enduml'') ?s" "\<not> py_in (py ''```'') ?s"
    by code_simp+
  have r: "(if list_all isspace ?s then py ''@startuml\<newline>@enduml''
            else py ''@startuml\<newline>'' @ py_rstrip ?s @ py ''\<newline>@enduml'')
      = py ''@startuml\<newline> A->B: hi\<newline>@enduml''"
    by code_simp
  from extract_plantuml_code_wrapped [OF h] show ?thesis
    by (simp only: r)
qed

text \<open>
  C6, as the claim states it: the body \<open>" A"\<close> has no marker or fence literal, and the
  extraction of its wrapping keeps the leading blank that \<open>trim\<close> would remove.
\<close>

theorem extract_wrapped_trim_counterexample:
  "\<not> py_in (py ''@startuml'') (py '' A'') \<and> \<not> py_in (py ''@enduml'') (py '' A'') \<and>
   \<not> py_in (py ''```'') (py '' A'') \<and> \<not> py_in (py ''```plantuml'') (py '' A'') \<and>
   extract_plantuml_code (py ''@startuml\<newline>'' @ py '' A'' @ py ''\<newline>@enduml'')
     = Inr (py ''@startuml\<newline> A\<newline>@enduml'') \<and>
   py ''@startuml\<newline>'' @ py_strip (py '' A'') @ py ''\<newline>@enduml''
     = py ''@startuml\<newline>A\<newline>@enduml'' \<and>
   py ''@startuml\<newline> A\<newline>@enduml'' \<noteq> py ''@startuml\<newline>A\<newline>@enduml''"
  by code_simp


subsection \<open>The tools\<close>

text \<open>
  C3. \<open>get_uml_diagram\<close> always returns: whatever the model invocation, the extraction, the
  fetch from the rendering server or the upload raises (any \<open>Exception\<close>), the result is
  the object with the message of that exception under \<open>error\<close> and with \<open>codeBody\<close> and
  \<open>diagramUri\<close> null.
\<close>

theorem get_uml_diagram_never_raises:
  defines "prompt y \<equiv> py_replace (py ''{YAML_FILE}'') y UML_GENERATION_PROMPT"
  shows
  "(\<exists>out. get_uml_diagram env yml_body output_format = Inr out) \<and>
   (\<forall>e. invoke_model env model_id (request_body (prompt yml_body)) = Inl e \<longrightarrow>
      get_uml_diagram env yml_body output_format = Inr (uml_error_result (str_of e))) \<and>
   (\<forall>text e. invoke_model env model_id (request_body (prompt yml_body)) = Inr text \<longrightarrow>
      extract_plantuml_code text = Inl e \<longrightarrow>
      get_uml_diagram env yml_body output_format = Inr (uml_error_result (str_of e))) \<and>
   (\<forall>text code e. invoke_model env model_id (request_body (prompt yml_body)) = Inr text \<longrightarrow>
      extract_plantuml_code text = Inr code \<longrightarrow>
      get_diagram_from_server env code output_format = Inl e \<longrightarrow>
      get_uml_diagram env yml_body output_format = Inr (uml_error_result (str_of e))) \<and>
   (\<forall>text code data e. invoke_model env model_id (request_body (prompt yml_body)) = Inr text \<longrightarrow>
      extract_plantuml_code text = Inr code \<longrightarrow>
      get_diagram_from_server env code output_format = Inr data \<longrightarrow>
      upload_to_s3 env data (py ''diagrams/'' @ uuid4 env @ py ''.'' @ output_format) = Inl e \<longrightarrow>
      get_uml_diagram env yml_body output_format = Inr (uml_error_result (str_of e)))"
  unfolding prompt_def
  using get_uml_diagram_returns [of env yml_body output_format]
    get_uml_diagram_steps [of env yml_body output_format]
  by (rule conjI)

theorem get_uml_diagram_never_raises_witness:
  "get_uml_diagram (demo_services demo_diagram 200 False) (py ''openapi: 3.0.0'') (py ''png'')
     = Inr (uml_error_result (py ''Error uploading to S3: AccessDenied''))"
proof -
  let ?env = "demo_services demo_diagram 200 False"
  have fetch: "get_diagram_from_server ?env demo_diagram (py ''png'') = Inr [137, 80, 78, 71]"
    by (simp add: get_diagram_from_server_def demo_encode demo_http_request_get
          try_except_def seq_def)
  have upload: "upload_to_s3 ?env [137, 80, 78, 71]
      (py ''diagrams/'' @ uuid4 ?env @ py ''.'' @ py ''png'')
      = Inl (Exception (py ''Error uploading to S3: AccessDenied''))"
    by code_simp
  from get_uml_diagram_never_raises [of ?env "py ''openapi: 3.0.0''" "py ''png''"]
  have "get_uml_diagram ?env (py ''openapi: 3.0.0'') (py ''png'')
      = Inr (uml_error_result (str_of (Exception (py ''Error uploading to S3: AccessDenied''))))"
    using demo_invoke_model demo_extract fetch upload by blast
  then show ?thesis by simp
qed

text \<open>
  C4, as the code has it. When the source has been extracted and the rendering server
  answers with a status other than 200, the result of \<open>get_uml_diagram\<close> carries the
  message of the fault under \<open>error\<close>, and both \<open>diagramUri\<close> and \<open>codeBody\<close> are null:
  the extracted source is not kept.
\<close>

theorem get_uml_diagram_non_200:
  assumes "invoke_model env model_id
             (request_body (py_replace (py ''{YAML_FILE}'') yml_body UML_GENERATION_PROMPT))
           = Inr text"
    and "extract_plantuml_code text = Inr code"
    and "encode_plantuml env code = Inr encoded"
    and "http_request_get env (PLANTUML_SERVER @ py ''/'' @ output_format @ py ''/'' @ encoded)
           = Inr (status, data)"
    and "status \<noteq> 200"
  shows "get_uml_diagram env yml_body output_format
     = Inr (JObject
         [(py ''error'',
             JString (py ''Error getting diagram from server: Failed to get diagram: HTTP ''
                        @ str_int status)),
          (py ''codeBody'', JNull),
          (py ''diagramUri'', JNull)])"
  using assms by (rule get_uml_diagram_transport_fault)

theorem get_uml_diagram_non_200_witness:
  "get_uml_diagram (demo_services demo_diagram 404 True) (py ''openapi: 3.0.0'') (py ''png'')
     = Inr (JObject
         [(py ''error'',
             JString (py ''Error getting diagram from server: Failed to get diagram: HTTP 404'')),
          (py ''codeBody'', JNull),
          (py ''diagramUri'', JNull)])"
proof -
  have status: "(404::int) \<noteq> 200" by simp
  have message: "py ''Error getting diagram from server: Failed to get diagram: HTTP '' @ str_int 404
      = py ''Error getting diagram from server: Failed to get diagram: HTTP 404''"
    by code_simp
  from get_uml_diagram_non_200
    [OF demo_invoke_model demo_extract demo_encode demo_http_request_get status]
  show ?thesis by (simp only: message)
qed

text \<open>
  C4, as the claim states it: with the source extracted and the server answering 404,
  \<open>codeBody\<close> is null and not the extracted source.
\<close>

theorem get_uml_diagram_code_body_counterexample:
  "extract_plantuml_code demo_diagram = Inr demo_diagram \<and>
   http_request_get (demo_services demo_diagram 404 True)
       (PLANTUML_SERVER @ py ''/'' @ py ''png'' @ py ''/'' @ py ''G7DqON9qTMri2a4jFa8w86Xf2a1bRcHrRMm'')
     = Inr (404, [137, 80, 78, 71]) \<and>
   get_uml_diagram (demo_services demo_diagram 404 True) (py ''openapi: 3.0.0'') (py ''png'')
     = Inr (JObject
         [(py ''error'',
             JString (py ''Error getting diagram from server: Failed to get diagram: HTTP 404'')),
          (py ''codeBody'', JNull),
          (py ''diagramUri'', JNull)]) \<and>
   JNull \<noteq> JString demo_diagram"
proof -
  have status: "(404::int) \<noteq> 200" by simp
  have message: "py ''Error getting diagram from server: Failed to get diagram: HTTP '' @ str_int 404
      = py ''Error getting diagram from server: Failed to get diagram: HTTP 404''"
    by code_simp
  from get_uml_diagram_transport_fault
    [OF demo_invoke_model demo_extract demo_encode demo_http_request_get status]
  have "get_uml_diagram (demo_services demo_diagram 404 True) (py ''openapi: 3.0.0'') (py ''png'')
     = Inr (JObject
         [(py ''error'',
             JString (py ''Error getting diagram from server: Failed to get diagram: HTTP 404'')),
          (py ''codeBody'', JNull),
          (py ''diagramUri'', JNull)])"
    by (simp only: message)
  then show ?thesis
    using demo_extract demo_http_request_get by simp
qed

text \<open>
  C9, as the code has it. Each tool returns a JSON object. The error results have the
  key \<open>error\<close> and the success results do not, so a caller can branch on it. The two
  shapes of a tool do not have the same fields otherwise: \<open>summary\<close> of
  \<open>get_uml_diagram\<close> and \<open>query\<close> and \<open>count\<close> of \<open>search_knowledge_base\<close> occur in the success
  result only.
\<close>

theorem tool_result_shapes:
  "(\<exists>kvs. get_uml_diagram env yml_body output_format = Inr (JObject kvs) \<and>
      (map fst kvs = [py ''codeBody'', py ''diagramUri'', py ''summary'']
         \<and> py ''error'' \<notin> set (map fst kvs) \<or>
       map fst kvs = [py ''error'', py ''codeBody'', py ''diagramUri''])) \<and>
   (\<exists>kvs. get_unit_test_code env yml_body user_query = Inr (JObject kvs) \<and>
      (map fst kvs = [py ''codeBody''] \<and> py ''error'' \<notin> set (map fst kvs) \<or>
       map fst kvs = [py ''error'', py ''codeBody''])) \<and>
   (\<exists>kvs. search_knowledge_base env query kb_id max_results = Inr (JObject kvs) \<and>
      (map fst kvs = [py ''query'', py ''results'', py ''count'']
         \<and> py ''error'' \<notin> set (map fst kvs) \<or>
       map fst kvs = [py ''error'', py ''results'']))"
proof (intro conjI)
  show "\<exists>kvs. get_uml_diagram env yml_body output_format = Inr (JObject kvs) \<and>
      (map fst kvs = [py ''codeBody'', py ''diagramUri'', py ''summary'']
         \<and> py ''error'' \<notin> set (map fst kvs) \<or>
       map fst kvs = [py ''error'', py ''codeBody'', py ''diagramUri''])"
    using get_uml_diagram_shapes [of env yml_body output_format] field_literals
    by fastforce
  show "\<exists>kvs. get_unit_test_code env yml_body user_query = Inr (JObject kvs) \<and>
      (map fst kvs = [py ''codeBody''] \<and> py ''error'' \<notin> set (map fst kvs) \<or>
       map fst kvs = [py ''error'', py ''codeBody''])"
    using get_unit_test_code_shapes [of env yml_body user_query] field_literals
    by fastforce
  show "\<exists>kvs. search_knowledge_base env query kb_id max_results = Inr (JObject kvs) \<and>
      (map fst kvs = [py ''query'', py ''results'', py ''count'']
         \<and> py ''error'' \<notin> set (map fst kvs) \<or>
       map fst kvs = [py ''error'', py ''results''])"
    using search_knowledge_base_shapes [of env query kb_id max_results] field_literals
    by fastforce
qed

theorem tool_result_shapes_witness:
  "\<exists>kvs. search_knowledge_base (demo_services demo_diagram 200 False)
            (py ''list pets'') (py ''KB1'') 5 = Inr (JObject kvs) \<and>
     map fst kvs = [py ''error'', py ''results'']"
proof -
  have "result_fields (search_knowledge_base (demo_services demo_diagram 200 False)
      (py ''list pets'') (py ''KB1'') 5) = [py ''error'', py ''results'']"
    by code_simp
  moreover have "[py ''error'', py ''results''] \<noteq> [py ''query'', py ''results'', py ''count'']"
    by simp
  ultimately show ?thesis
    using tool_result_shapes [of "demo_services demo_diagram 200 False" "[]" "[]" "[]"
        "py ''list pets''" "py ''KB1''" 5]
    by (auto simp: result_fields_def)
qed

text \<open>
  C9, as the claim states it: the success result of \<open>get_uml_diagram\<close> has the field
  \<open>summary\<close>, which its error result lacks, and the two results of
  \<open>search_knowledge_base\<close> differ in \<open>query\<close> and \<open>count\<close>.
\<close>

theorem tool_field_names_counterexample:
  "result_fields (get_uml_diagram (demo_services demo_diagram 200 True)
       (py ''openapi: 3.0.0'') (py ''png''))
     = [py ''codeBody'', py ''diagramUri'', py ''summary''] \<and>
   result_fields (get_uml_diagram (demo_services demo_diagram 404 True)
       (py ''openapi: 3.0.0'') (py ''png''))
     = [py ''error'', py ''codeBody'', py ''diagramUri''] \<and>
   py ''summary'' \<notin> set [py ''error'', py ''codeBody'', py ''diagramUri''] \<and>
   result_fields (search_knowledge_base (demo_services demo_diagram 200 True)
       (py ''list pets'') (py ''KB1'') 5)
     = [py ''query'', py ''results'', py ''count''] \<and>
   result_fields (search_knowledge_base (demo_services demo_diagram 200 False)
       (py ''list pets'') (py ''KB1'') 5)
     = [py ''error'', py ''results'']"
proof -
  let ?ok = "demo_services demo_diagram 200 True"
  have fetch: "get_diagram_from_server ?ok demo_diagram (py ''png'') = Inr [137, 80, 78, 71]"
    by (simp add: get_diagram_from_server_def demo_encode demo_http_request_get
          try_except_def seq_def)
  have upload: "upload_to_s3 ?ok [137, 80, 78, 71]
      (py ''diagrams/'' @ uuid4 ?ok @ py ''.'' @ py ''png'')
      = Inr (py ''s3://sagemaker-us-east-1-123456789012/diagrams/0f8fad5b-d9cb-469f-a165-70867728950e.png'')"
    by code_simp
  have status: "(404::int) \<noteq> 200" by simp
  have "result_fields (get_uml_diagram ?ok (py ''openapi: 3.0.0'') (py ''png''))
      = [py ''codeBody'', py ''diagramUri'', py ''summary'']"
    by (simp add: result_fields_def
        get_uml_diagram_success [OF demo_invoke_model demo_extract fetch upload])
  moreover have "result_fields (get_uml_diagram (demo_services demo_diagram 404 True)
        (py ''openapi: 3.0.0'') (py ''png''))
      = [py ''error'', py ''codeBody'', py ''diagramUri'']"
    by (simp add: result_fields_def get_uml_diagram_transport_fault
        [OF demo_invoke_model demo_extract demo_encode demo_http_request_get status])
  moreover have "py ''summary'' \<notin> set [py ''error'', py ''codeBody'', py ''diagramUri'']"
    by (simp add: py_def)
  moreover have "result_fields (search_knowledge_base ?ok (py ''list pets'') (py ''KB1'') 5)
      = [py ''query'', py ''results'', py ''count'']"
    by code_simp
  moreover have "result_fields (search_knowledge_base (demo_services demo_diagram 200 False)
        (py ''list pets'') (py ''KB1'') 5)
      = [py ''error'', py ''results'']"
    by code_simp
  ultimately show ?thesis by (simp only: simp_thms)
qed


end
